theory Spec2Isabelle
  imports Complex_Main
begin

section \<open>JavaScript values\<close>

text \<open>
  A JavaScript number is a finite value, one of the two infinities, or NaN. Finite values
  are taken as reals: the rounding of doubles and the sign of zero are not modelled (every
  divisor below comes from \<open>Math.max(_, 0)\<close>, which never yields a negative zero).
\<close>

datatype jsnum = Fin real | PosInf | NegInf | NaN

text \<open>An array element or property value: \<open>undefined\<close>, a number or a string.\<close>

datatype jsval = Undefined | Number jsnum | String string

text \<open>The operator \<open>/\<close> on numbers.\<close>

fun js_div :: "jsnum \<Rightarrow> jsnum \<Rightarrow> jsnum" where
  "js_div NaN _ = NaN"
| "js_div _ NaN = NaN"
| "js_div (Fin a) (Fin b) =
     (if b = 0 then (if a = 0 then NaN else if 0 < a then PosInf else NegInf)
      else Fin (a / b))"
| "js_div (Fin a) PosInf = Fin 0"
| "js_div (Fin a) NegInf = Fin 0"
| "js_div PosInf (Fin b) = (if 0 \<le> b then PosInf else NegInf)"
| "js_div NegInf (Fin b) = (if 0 \<le> b then NegInf else PosInf)"
| "js_div PosInf PosInf = NaN"
| "js_div PosInf NegInf = NaN"
| "js_div NegInf PosInf = NaN"
| "js_div NegInf NegInf = NaN"

text \<open>The operator \<open>*\<close> on numbers.\<close>

fun js_mul :: "jsnum \<Rightarrow> jsnum \<Rightarrow> jsnum" where
  "js_mul NaN _ = NaN"
| "js_mul _ NaN = NaN"
| "js_mul (Fin a) (Fin b) = Fin (a * b)"
| "js_mul (Fin a) PosInf = (if a = 0 then NaN else if 0 < a then PosInf else NegInf)"
| "js_mul (Fin a) NegInf = (if a = 0 then NaN else if 0 < a then NegInf else PosInf)"
| "js_mul PosInf (Fin b) = (if b = 0 then NaN else if 0 < b then PosInf else NegInf)"
| "js_mul NegInf (Fin b) = (if b = 0 then NaN else if 0 < b then NegInf else PosInf)"
| "js_mul PosInf PosInf = PosInf"
| "js_mul PosInf NegInf = NegInf"
| "js_mul NegInf PosInf = NegInf"
| "js_mul NegInf NegInf = PosInf"

text \<open>\<open>Math.max(a, b)\<close>: NaN as soon as one argument is NaN.\<close>

fun js_max :: "jsnum \<Rightarrow> jsnum \<Rightarrow> jsnum" where
  "js_max NaN _ = NaN"
| "js_max _ NaN = NaN"
| "js_max PosInf _ = PosInf"
| "js_max _ PosInf = PosInf"
| "js_max NegInf b = b"
| "js_max a NegInf = a"
| "js_max (Fin a) (Fin b) = Fin (max a b)"

text \<open>The comparison \<open>a <= b\<close>: false as soon as one side is NaN.\<close>

fun js_le :: "jsnum \<Rightarrow> jsnum \<Rightarrow> bool" where
  "js_le NaN _ = False"
| "js_le _ NaN = False"
| "js_le NegInf _ = True"
| "js_le _ PosInf = True"
| "js_le PosInf _ = False"
| "js_le _ NegInf = False"
| "js_le (Fin a) (Fin b) = (a \<le> b)"

text \<open>
  An object whose properties are numbers, such as a stat snapshot
  \<open>{ "ATP": 10, ... }\<close>. Reading a property that the object lacks gives \<open>undefined\<close>
  (\<open>None\<close>), which arithmetic and \<open>Math.max\<close> turn into NaN.
\<close>

type_synonym stats = "string \<rightharpoonup> jsnum"

fun toNumber :: "jsnum option \<Rightarrow> jsnum" where
  "toNumber None = NaN"
| "toNumber (Some x) = x"

fun toValue :: "jsnum option \<Rightarrow> jsval" where
  "toValue None = Undefined"
| "toValue (Some x) = Number x"

section \<open>The static dataset\<close>

text \<open>
  \<open>allClassData\<close> is an array of class objects (\<open>createStatAtLevelArray\<close> walks it by
  index). Each class object has a \<open>levelData\<close> array of entries with a \<open>level\<close> and a
  \<open>stats\<close> snapshot (\<open>createSingleStatArray\<close> reads both). The property holding the
  class identifier is not visible in the sources; it is called \<open>className\<close> here.
\<close>

record levelEntry =
  level :: int
  stats :: stats

record classData =
  className :: string
  levelData :: "levelEntry list"

record rgb =
  red :: real
  green :: real
  blue :: real

record characterColor =
  color :: rgb

datatype error = NotFoundError | UnknownStatError | RangeMismatchError

section \<open>radarChart.js: normalisation\<close>

text \<open>The literal \<open>{ "ATP": 0, "ATA": 0, "DFP":0, "EVP": 0,"MST": 0,"TP": 0,"HP": 0}\<close>.\<close>

definition zeroStats :: stats where
  "zeroStats = [''ATP'' \<mapsto> Fin 0, ''ATA'' \<mapsto> Fin 0, ''DFP'' \<mapsto> Fin 0, ''EVP'' \<mapsto> Fin 0,
                ''MST'' \<mapsto> Fin 0, ''TP'' \<mapsto> Fin 0, ''HP'' \<mapsto> Fin 0]"

text \<open>
  \<open>createPercentageStats\<close>: the loop assigns
  \<open>(characterStatsAtLevel[n] / maximumStatsObject[n]) * 100\<close> to property \<open>n\<close> for each
  \<open>n\<close> of \<open>statNames\<close>, in order. There is no test of the divisor.
\<close>

primrec createPercentageStats_loop :: "stats \<Rightarrow> stats \<Rightarrow> string list \<Rightarrow> stats \<Rightarrow> stats" where
  "createPercentageStats_loop characterStatsAtLevel maximumStatsObject [] percentageStats =
     percentageStats"
| "createPercentageStats_loop characterStatsAtLevel maximumStatsObject (n # ns) percentageStats =
     createPercentageStats_loop characterStatsAtLevel maximumStatsObject ns
       (percentageStats(n \<mapsto>
          js_mul (js_div (toNumber (characterStatsAtLevel n)) (toNumber (maximumStatsObject n)))
                 (Fin 100)))"

definition createPercentageStats :: "stats \<Rightarrow> stats \<Rightarrow> string list \<Rightarrow> stats" where
  "createPercentageStats characterStatsAtLevel maximumStatsObject statNames =
     createPercentageStats_loop characterStatsAtLevel maximumStatsObject statNames zeroStats"

text \<open>
  \<open>createMaximumStatsObject\<close>: for every snapshot (outer loop) and every stat name (inner
  loop), \<open>maximumStats[n] = Math.max(snapshot[n], maximumStats[n])\<close>.
\<close>

primrec createMaximumStatsObject_inner :: "stats \<Rightarrow> string list \<Rightarrow> stats \<Rightarrow> stats" where
  "createMaximumStatsObject_inner s [] maximumStats = maximumStats"
| "createMaximumStatsObject_inner s (n # ns) maximumStats =
     createMaximumStatsObject_inner s ns
       (maximumStats(n \<mapsto> js_max (toNumber (s n)) (toNumber (maximumStats n))))"

primrec createMaximumStatsObject_outer :: "stats list \<Rightarrow> string list \<Rightarrow> stats \<Rightarrow> stats" where
  "createMaximumStatsObject_outer [] statNames maximumStats = maximumStats"
| "createMaximumStatsObject_outer (s # ss) statNames maximumStats =
     createMaximumStatsObject_outer ss statNames
       (createMaximumStatsObject_inner s statNames maximumStats)"

definition createMaximumStatsObject :: "stats list \<Rightarrow> string list \<Rightarrow> stats" where
  "createMaximumStatsObject allCharacterStatsAtLevel statNames =
     createMaximumStatsObject_outer allCharacterStatsAtLevel statNames zeroStats"

text \<open>\<open>createStatArray\<close>: the properties named by \<open>statNames\<close>, in that order.\<close>

primrec createStatArray :: "stats \<Rightarrow> string list \<Rightarrow> jsval list" where
  "createStatArray percentageStatsObject [] = []"
| "createStatArray percentageStatsObject (n # ns) =
     toValue (percentageStatsObject n) # createStatArray percentageStatsObject ns"

section \<open>Chart objects\<close>

text \<open>
  The colour strings are template strings \<open>rgba(${rgb.red}, ${rgb.green}, ${rgb.blue}, a)\<close>;
  \<open>Rgba r g b a\<close> stands for that string.
\<close>

datatype colorString = Rgba real real real real

record dataSet =
  data :: "jsval list"
  label :: string
  backgroundColor :: colorString
  borderColor :: colorString
  pointBorderColor :: colorString
  pointBackgroundColor :: colorString
  fill :: bool

record titleOptions =
  display :: bool
  "text" :: string

text \<open>
  The object built by \<open>createLineGraphObject\<close>: its \<open>options\<close> property is written inside
  \<open>data\<close>, next to \<open>labels\<close> and \<open>datasets\<close>.
\<close>

record lineOptions =
  title :: titleOptions

record lineData =
  labels :: "jsval list"
  datasets :: "dataSet list"
  options :: lineOptions

record lineGraphObject =
  type :: string
  data :: lineData

text \<open>The object built by \<open>createRadarChartObject\<close>: \<open>options\<close> is a sibling of \<open>data\<close>.\<close>

record ticks =
  beginAtZero :: bool
  min_ticks :: int
  max_ticks :: int
  stepSize :: int

record scale =
  ticks :: ticks

record legend =
  position :: string

record radarOptions =
  title :: titleOptions
  scale :: scale
  legend :: legend

record radarData =
  labels :: "jsval list"
  datasets :: "dataSet list"

record radarChartObject =
  type :: string
  data :: radarData
  options :: radarOptions

section \<open>Accessors that are not among the sources\<close>

text \<open>
  Modelled from the spec: \<open>getCharacterClassDataObject\<close> is called by both assemblers but
  defined in a file that is missing. Spec 4.2 (\<open>classTable\<close>): it returns the class's table
  and fails with \<open>NotFoundError\<close> if the class identifier has no entry in the dataset.
\<close>

definition getCharacterClassDataObject :: "string \<Rightarrow> classData list \<Rightarrow> error + classData" where
  "getCharacterClassDataObject name allClassData =
     (case find (\<lambda>c. className c = name) allClassData of
        None \<Rightarrow> Inl NotFoundError
      | Some c \<Rightarrow> Inr c)"

text \<open>
  Modelled from the spec: \<open>getCharacterClassDataInRange\<close> is missing. Spec 4.2
  (\<open>tableInRange\<close>): it keeps the entries whose level lies within \<open>[start, end]\<close>
  inclusive, in their order.
\<close>

definition getCharacterClassDataInRange :: "int \<Rightarrow> int \<Rightarrow> classData \<Rightarrow> classData" where
  "getCharacterClassDataInRange startLevel endLevel characterClassData =
     characterClassData\<lparr>levelData :=
       filter (\<lambda>e. startLevel \<le> level e \<and> level e \<le> endLevel) (levelData characterClassData)\<rparr>"

text \<open>
  Modelled from the spec: \<open>getStatColor\<close> is missing. Spec 4.3 (\<open>resolveStatColor\<close>): it
  looks the stat's base colour up in the per-stat colour table, fails with
  \<open>UnknownStatError\<close> for a stat without one, and shifts the channels by the modifier,
  saturating at 0 and 255. The spec leaves the shift formula open; saturating addition
  is used here, and no statement below depends on the channel values.
\<close>

definition shiftChannel :: "real \<Rightarrow> real \<Rightarrow> real" where
  "shiftChannel c modifier = min 255 (max 0 (c + modifier))"

definition getStatColor :: "string \<Rightarrow> (string \<rightharpoonup> rgb) \<Rightarrow> real \<Rightarrow> error + rgb" where
  "getStatColor statName allStatColors modifier =
     (case allStatColors statName of
        None \<Rightarrow> Inl UnknownStatError
      | Some base \<Rightarrow>
          Inr \<lparr>red = shiftChannel (red base) modifier,
               green = shiftChannel (green base) modifier,
               blue = shiftChannel (blue base) modifier\<rparr>)"

text \<open>
  Modelled from the spec: \<open>getCharacterColor\<close> is missing. Spec 4.3 (\<open>resolveClassColor\<close>):
  a direct lookup that fails with \<open>NotFoundError\<close> if the class has no colour. The caller
  reads the \<open>color\<close> property of what it returns.
\<close>

definition getCharacterColor :: "(string \<rightharpoonup> characterColor) \<Rightarrow> string \<Rightarrow> error + characterColor" where
  "getCharacterColor characterColors name =
     (case characterColors name of
        None \<Rightarrow> Inl NotFoundError
      | Some c \<Rightarrow> Inr c)"

text \<open>
  \<open>getStatsAtLevel\<close> is missing as well, and the spec does not fix what it returns for a
  level without an entry. The radar functions below therefore take it as a parameter: any
  function from a class object and a level to a snapshot.
\<close>

type_synonym statsAccessor = "classData \<Rightarrow> int \<Rightarrow> stats"

section \<open>radarChart.js: assembly\<close>

primrec createStatAtLevelArray :: "statsAccessor \<Rightarrow> classData list \<Rightarrow> int \<Rightarrow> stats list" where
  "createStatAtLevelArray getStatsAtLevel [] lvl = []"
| "createStatAtLevelArray getStatsAtLevel (c # cs) lvl =
     getStatsAtLevel c lvl # createStatAtLevelArray getStatsAtLevel cs lvl"

definition createRadarChartObject :: "jsval list \<Rightarrow> dataSet list \<Rightarrow> string \<Rightarrow> radarChartObject" where
  "createRadarChartObject labelArray dataSets titleText =
     \<lparr>type = ''radar'',
      data = \<lparr>labels = labelArray, datasets = dataSets\<rparr>,
      options = \<lparr>title = \<lparr>display = True, text = titleText\<rparr>,
                 scale = \<lparr>ticks = \<lparr>beginAtZero = True, min_ticks = 0, max_ticks = 100,
                                   stepSize = 10\<rparr>\<rparr>,
                 legend = \<lparr>position = ''top''\<rparr>\<rparr>\<rparr>"

definition createRadarChartDataSet :: "string \<Rightarrow> jsval list \<Rightarrow> rgb \<Rightarrow> dataSet" where
  "createRadarChartDataSet name percentageStatsArray rgb =
     \<lparr>dataSet.data = percentageStatsArray,
      label = name,
      backgroundColor = Rgba (red rgb) (green rgb) (blue rgb) 0.5,
      borderColor = Rgba (red rgb) (green rgb) (blue rgb) 0.75,
      pointBorderColor = Rgba (red rgb) (green rgb) (blue rgb) 1,
      pointBackgroundColor = Rgba (red rgb) (green rgb) (blue rgb) 1,
      fill = True\<rparr>"

text \<open>The body of the loop of \<open>createRadarChartDataSets\<close>, for one selected class.\<close>

definition createRadarChartDataSets_body ::
  "statsAccessor \<Rightarrow> string \<Rightarrow> classData list \<Rightarrow> (string \<rightharpoonup> characterColor) \<Rightarrow> int \<Rightarrow> string list
     \<Rightarrow> error + dataSet" where
  "createRadarChartDataSets_body getStatsAtLevel selectedClass allClassData characterColors
       selectedLevel statNames =
     (case getCharacterClassDataObject selectedClass allClassData of
        Inl e \<Rightarrow> Inl e
      | Inr characterClassData \<Rightarrow>
          (let characterStatsAtLevel = getStatsAtLevel characterClassData selectedLevel;
               statsAtLevel = createStatAtLevelArray getStatsAtLevel allClassData selectedLevel;
               maximumStatsObject = createMaximumStatsObject statsAtLevel statNames;
               percentageStatsObject =
                 createPercentageStats characterStatsAtLevel maximumStatsObject statNames;
               percentageStatArray = createStatArray percentageStatsObject statNames
           in case getCharacterColor characterColors selectedClass of
                Inl e \<Rightarrow> Inl e
              | Inr characterColor \<Rightarrow>
                  Inr (createRadarChartDataSet selectedClass percentageStatArray
                         (color characterColor))))"

primrec createRadarChartDataSets_loop ::
  "statsAccessor \<Rightarrow> string list \<Rightarrow> classData list \<Rightarrow> (string \<rightharpoonup> characterColor) \<Rightarrow> int
     \<Rightarrow> string list \<Rightarrow> dataSet list \<Rightarrow> error + dataSet list" where
  "createRadarChartDataSets_loop getStatsAtLevel [] allClassData characterColors selectedLevel
       statNames dataSets = Inr dataSets"
| "createRadarChartDataSets_loop getStatsAtLevel (c # cs) allClassData characterColors
       selectedLevel statNames dataSets =
     (case createRadarChartDataSets_body getStatsAtLevel c allClassData characterColors
             selectedLevel statNames of
        Inl e \<Rightarrow> Inl e
      | Inr dataSet \<Rightarrow>
          createRadarChartDataSets_loop getStatsAtLevel cs allClassData characterColors
            selectedLevel statNames (dataSets @ [dataSet]))"

definition createRadarChartDataSets ::
  "statsAccessor \<Rightarrow> string list \<Rightarrow> classData list \<Rightarrow> (string \<rightharpoonup> characterColor) \<Rightarrow> int
     \<Rightarrow> string list \<Rightarrow> error + dataSet list" where
  "createRadarChartDataSets getStatsAtLevel selectedCharacterClasses allClassData
       characterColors selectedLevel statNames =
     createRadarChartDataSets_loop getStatsAtLevel selectedCharacterClasses allClassData
       characterColors selectedLevel statNames []"

definition assembleRadarChartObject ::
  "statsAccessor \<Rightarrow> string list \<Rightarrow> classData list \<Rightarrow> (string \<rightharpoonup> characterColor) \<Rightarrow> int
     \<Rightarrow> string list \<Rightarrow> error + radarChartObject" where
  "assembleRadarChartObject getStatsAtLevel selectedCharacterClasses allClassData
       characterColors selectedLevel statNames =
     (case createRadarChartDataSets getStatsAtLevel selectedCharacterClasses allClassData
             characterColors selectedLevel statNames of
        Inl e \<Rightarrow> Inl e
      | Inr dataSets \<Rightarrow>
          Inr (createRadarChartObject (map String statNames) dataSets ''Class stats''))"

section \<open>The line graph assembler\<close>

text \<open>
  Lines 3 to 12 of \<open>assembleLineGraphObject\<close>: the start is raised to 5, the end lowered
  to 200, and both are rounded up to a multiple of 5 with \<open>Math.ceil(x/5)*5\<close>. Levels are
  integers (the caller reads them with \<open>parseInt\<close>).
\<close>

definition clampLevelRange :: "int \<Rightarrow> int \<Rightarrow> int \<times> int" where
  "clampLevelRange startLevel endLevel =
     (let startLevel = (if startLevel < 5 then 5 else startLevel);
          endLevel = (if endLevel > 200 then 200 else endLevel);
          startLevel = \<lceil>real_of_int startLevel / 5\<rceil> * 5;
          endLevel = \<lceil>real_of_int endLevel / 5\<rceil> * 5
      in (startLevel, endLevel))"

text \<open>\<open>createLevelArray\<close>: \<open>for (let i = lower; i <= upper; i = i+5) levelArray.push(i)\<close>.\<close>

function createLevelArray_loop :: "int \<Rightarrow> int \<Rightarrow> int list \<Rightarrow> int list" where
  "createLevelArray_loop i upper levelArray =
     (if i \<le> upper then createLevelArray_loop (i + 5) upper (levelArray @ [i])
      else levelArray)"
  by pat_completeness auto
termination
  by (relation "measure (\<lambda>(i, upper, levelArray). nat (upper - i + 1))") auto

declare createLevelArray_loop.simps [simp del]

definition createLevelArray :: "int \<Rightarrow> int \<Rightarrow> int list" where
  "createLevelArray lower upper = createLevelArray_loop lower upper []"

primrec createSingleStatArray_loop :: "string \<Rightarrow> levelEntry list \<Rightarrow> jsval list" where
  "createSingleStatArray_loop statName [] = []"
| "createSingleStatArray_loop statName (e # es) =
     toValue (stats e statName) # createSingleStatArray_loop statName es"

definition createSingleStatArray :: "string \<Rightarrow> classData \<Rightarrow> jsval list" where
  "createSingleStatArray statName characterClassData =
     createSingleStatArray_loop statName (levelData characterClassData)"

definition createLineGraphObject :: "jsval list \<Rightarrow> dataSet list \<Rightarrow> string \<Rightarrow> lineGraphObject" where
  "createLineGraphObject labelArray dataSets titleText =
     \<lparr>lineGraphObject.type = ''line'',
      data = \<lparr>lineData.labels = labelArray,
              datasets = dataSets,
              options = \<lparr>lineOptions.title = \<lparr>display = True, text = titleText\<rparr>\<rparr>\<rparr>\<rparr>"

definition createLineChartDataSet :: "jsval list \<Rightarrow> string \<Rightarrow> rgb \<Rightarrow> dataSet" where
  "createLineChartDataSet d lbl rgb =
     \<lparr>dataSet.data = d,
      label = lbl,
      backgroundColor = Rgba (red rgb) (green rgb) (blue rgb) 0.5,
      borderColor = Rgba (red rgb) (green rgb) (blue rgb) 0.75,
      pointBorderColor = Rgba (red rgb) (green rgb) (blue rgb) 1,
      pointBackgroundColor = Rgba (red rgb) (green rgb) (blue rgb) 1,
      fill = False\<rparr>"

text \<open>
  The body of the inner loop of \<open>assembleLineGraphObject\<close>, for class number \<open>i\<close> and one
  stat; \<open>n\<close> is \<open>selectedClasses.length\<close>.
\<close>

definition assembleLineGraphObject_body ::
  "nat \<Rightarrow> nat \<Rightarrow> string \<Rightarrow> string \<Rightarrow> classData list \<Rightarrow> (string \<rightharpoonup> rgb) \<Rightarrow> int \<Rightarrow> int
     \<Rightarrow> error + dataSet" where
  "assembleLineGraphObject_body i n selectedClass selectedStat allClassData allStatColors
       startLevel endLevel =
     (let dataLabel = selectedClass @ ''('' @ selectedStat @ '')''
      in case getCharacterClassDataObject selectedClass allClassData of
           Inl e \<Rightarrow> Inl e
         | Inr characterStatsDataObject \<Rightarrow>
             (let characterStatsDataObjectInRange =
                    getCharacterClassDataInRange startLevel endLevel characterStatsDataObject;
                  statArray = createSingleStatArray selectedStat characterStatsDataObjectInRange;
                  modifier = real i * (100 / real n)
              in case getStatColor selectedStat allStatColors modifier of
                   Inl e \<Rightarrow> Inl e
                 | Inr rgb \<Rightarrow> Inr (createLineChartDataSet statArray dataLabel rgb)))"

primrec assembleLineGraphObject_inner ::
  "nat \<Rightarrow> nat \<Rightarrow> string \<Rightarrow> string list \<Rightarrow> classData list \<Rightarrow> (string \<rightharpoonup> rgb) \<Rightarrow> int \<Rightarrow> int
     \<Rightarrow> dataSet list \<Rightarrow> error + dataSet list" where
  "assembleLineGraphObject_inner i n selectedClass [] allClassData allStatColors
       startLevel endLevel dataSets = Inr dataSets"
| "assembleLineGraphObject_inner i n selectedClass (st # sts) allClassData allStatColors
       startLevel endLevel dataSets =
     (case assembleLineGraphObject_body i n selectedClass st allClassData allStatColors
             startLevel endLevel of
        Inl e \<Rightarrow> Inl e
      | Inr dataSet \<Rightarrow>
          assembleLineGraphObject_inner i n selectedClass sts allClassData allStatColors
            startLevel endLevel (dataSets @ [dataSet]))"

primrec assembleLineGraphObject_outer ::
  "nat \<Rightarrow> nat \<Rightarrow> string list \<Rightarrow> string list \<Rightarrow> classData list \<Rightarrow> (string \<rightharpoonup> rgb) \<Rightarrow> int \<Rightarrow> int
     \<Rightarrow> dataSet list \<Rightarrow> error + dataSet list" where
  "assembleLineGraphObject_outer i n [] selectedStats allClassData allStatColors
       startLevel endLevel dataSets = Inr dataSets"
| "assembleLineGraphObject_outer i n (c # cs) selectedStats allClassData allStatColors
       startLevel endLevel dataSets =
     (case assembleLineGraphObject_inner i n c selectedStats allClassData allStatColors
             startLevel endLevel dataSets of
        Inl e \<Rightarrow> Inl e
      | Inr dataSets' \<Rightarrow>
          assembleLineGraphObject_outer (Suc i) n cs selectedStats allClassData allStatColors
            startLevel endLevel dataSets')"

definition assembleLineGraphObject ::
  "string list \<Rightarrow> string list \<Rightarrow> string \<Rightarrow> classData list \<Rightarrow> (string \<rightharpoonup> rgb) \<Rightarrow> int \<Rightarrow> int
     \<Rightarrow> error + lineGraphObject" where
  "assembleLineGraphObject selectedClasses selectedStats titleText allClassData allStatColors
       startLevel endLevel =
     (case clampLevelRange startLevel endLevel of
        (startLevel, endLevel) \<Rightarrow>
          (let scaleLabels = createLevelArray startLevel endLevel
           in case assembleLineGraphObject_outer 0 (length selectedClasses) selectedClasses
                     selectedStats allClassData allStatColors startLevel endLevel [] of
                Inl e \<Rightarrow> Inl e
              | Inr dataSets \<Rightarrow>
                  Inr (createLineGraphObject (map (\<lambda>l. Number (Fin (real_of_int l))) scaleLabels)
                         dataSets titleText)))"

section \<open>Auxiliary definitions for the statements\<close>

text \<open>\<open>typeof v === "string"\<close>.\<close>

fun isString :: "jsval \<Rightarrow> bool" where
  "isString (String s) = True"
| "isString v = False"

text \<open>
  Modelled from the spec: one snapshot accessor, used to run the radar functions on
  concrete data. Spec 4.5 step 1: the snapshot of the class's entry at the level. For a
  level without an entry it returns an object without properties.
\<close>

definition getStatsAtLevel_lookup :: statsAccessor where
  "getStatsAtLevel_lookup characterClassData lvl =
     (case find (\<lambda>e. level e = lvl) (levelData characterClassData) of
        None \<Rightarrow> Map.empty
      | Some e \<Rightarrow> stats e)"

text \<open>
  Sample data for running the assemblers: two of the classes, with entries at levels 5 and
  10 only. The dataset itself is not among the sources; the values are illustrative.
\<close>

definition sampleClassData :: "classData list" where
  "sampleClassData =
     [\<lparr>className = ''HUcast'',
       levelData = [\<lparr>level = 5, stats = [''ATP'' \<mapsto> Fin 10, ''HP'' \<mapsto> Fin 40]\<rparr>,
                    \<lparr>level = 10, stats = [''ATP'' \<mapsto> Fin 30, ''HP'' \<mapsto> Fin 60]\<rparr>]\<rparr>,
      \<lparr>className = ''RAmar'',
       levelData = [\<lparr>level = 5, stats = [''ATP'' \<mapsto> Fin 20, ''HP'' \<mapsto> Fin 30]\<rparr>,
                    \<lparr>level = 10, stats = [''ATP'' \<mapsto> Fin 40, ''HP'' \<mapsto> Fin 45]\<rparr>]\<rparr>]"

definition sampleCharacterColors :: "string \<rightharpoonup> characterColor" where
  "sampleCharacterColors =
     [''HUcast'' \<mapsto> \<lparr>color = \<lparr>red = 200, green = 30, blue = 30\<rparr>\<rparr>,
      ''RAmar'' \<mapsto> \<lparr>color = \<lparr>red = 30, green = 30, blue = 200\<rparr>\<rparr>]"

definition sampleStatColors :: "string \<rightharpoonup> rgb" where
  "sampleStatColors =
     [''ATP'' \<mapsto> \<lparr>red = 255, green = 0, blue = 0\<rparr>,
      ''HP'' \<mapsto> \<lparr>red = 0, green = 128, blue = 0\<rparr>]"

section \<open>Properties of the normalisation\<close>

lemma createPercentageStats_loop_other:
  "n \<notin> set ns \<Longrightarrow> createPercentageStats_loop cs ms ns p n = p n"
  by (induction ns arbitrary: p) auto

lemma createPercentageStats_loop_member:
  "n \<in> set ns \<Longrightarrow>
   createPercentageStats_loop cs ms ns p n =
     Some (js_mul (js_div (toNumber (cs n)) (toNumber (ms n))) (Fin 100))"
proof (induction ns arbitrary: p)
  case Nil
  then show ?case by simp
next
  case (Cons a ns)
  show ?case
  proof (cases "n \<in> set ns")
    case True
    then show ?thesis using Cons.IH by simp
  next
    case False
    then have "a = n" using Cons.prems by simp
    then show ?thesis using False by (simp add: createPercentageStats_loop_other)
  qed
qed

lemma createPercentageStats_member:
  "n \<in> set statNames \<Longrightarrow>
   createPercentageStats cs ms statNames n =
     Some (js_mul (js_div (toNumber (cs n)) (toNumber (ms n))) (Fin 100))"
  by (simp add: createPercentageStats_def createPercentageStats_loop_member)

lemma js_div_zero_cases:
  "js_div x (Fin 0) = NaN \<or> js_div x (Fin 0) = PosInf \<or> js_div x (Fin 0) = NegInf"
  by (cases x) auto

lemma js_max_idem: "js_max a (js_max a b) = js_max a b"
  by (cases a; cases b) auto

lemma createMaximumStatsObject_inner_other:
  "n \<notin> set ns \<Longrightarrow> createMaximumStatsObject_inner s ns m n = m n"
  by (induction ns arbitrary: m) auto

lemma createMaximumStatsObject_inner_member:
  "n \<in> set ns \<Longrightarrow>
   createMaximumStatsObject_inner s ns m n = Some (js_max (toNumber (s n)) (toNumber (m n)))"
proof (induction ns arbitrary: m)
  case Nil
  then show ?case by simp
next
  case (Cons a ns)
  show ?case
  proof (cases "n \<in> set ns")
    case True
    then show ?thesis using Cons.IH by (simp add: js_max_idem)
  next
    case False
    then have "a = n" using Cons.prems by simp
    then show ?thesis using False by (simp add: createMaximumStatsObject_inner_other)
  qed
qed

text \<open>
  Over snapshots whose value for \<open>n\<close> is a finite non-negative number, the running maximum
  stays finite, never decreases and dominates every value seen.
\<close>

lemma createMaximumStatsObject_outer_bound:
  assumes "n \<in> set ns" and "m n = Some (Fin a)" and "0 \<le> a"
    and "\<forall>s\<in>set ss. \<exists>v. s n = Some (Fin v) \<and> 0 \<le> v"
  shows "\<exists>b. createMaximumStatsObject_outer ss ns m n = Some (Fin b) \<and> a \<le> b
           \<and> (\<forall>s\<in>set ss. \<forall>v. s n = Some (Fin v) \<longrightarrow> v \<le> b)"
  using assms
proof (induction ss arbitrary: m a)
  case Nil
  then show ?case by simp
next
  case (Cons s ss)
  from Cons.prems obtain v where v: "s n = Some (Fin v)" "0 \<le> v" by auto
  let ?m' = "createMaximumStatsObject_inner s ns m"
  have m': "?m' n = Some (Fin (max v a))"
    using Cons.prems(1,2) v by (simp add: createMaximumStatsObject_inner_member)
  have "0 \<le> max v a" using v by simp
  then have "\<exists>b. createMaximumStatsObject_outer ss ns ?m' n = Some (Fin b) \<and> max v a \<le> b
           \<and> (\<forall>s\<in>set ss. \<forall>v. s n = Some (Fin v) \<longrightarrow> v \<le> b)"
    using Cons.IH[of ?m' "max v a"] Cons.prems(1,4) m' by simp
  then obtain b where b: "createMaximumStatsObject_outer ss ns ?m' n = Some (Fin b)"
     "max v a \<le> b" "\<forall>s\<in>set ss. \<forall>v. s n = Some (Fin v) \<longrightarrow> v \<le> b" by auto
  then show ?case using v by auto
qed

text \<open>The running maximum is the seed or the value of one of the snapshots.\<close>

lemma createMaximumStatsObject_outer_attained:
  assumes "n \<in> set ns" and "m n = Some (Fin a)" and "0 \<le> a"
    and "\<forall>s\<in>set ss. \<exists>v. s n = Some (Fin v) \<and> 0 \<le> v"
  shows "\<exists>b. createMaximumStatsObject_outer ss ns m n = Some (Fin b)
           \<and> (b = a \<or> (\<exists>s\<in>set ss. s n = Some (Fin b)))"
  using assms
proof (induction ss arbitrary: m a)
  case Nil
  then show ?case by simp
next
  case (Cons s ss)
  from Cons.prems obtain v where v: "s n = Some (Fin v)" "0 \<le> v" by auto
  let ?m' = "createMaximumStatsObject_inner s ns m"
  have m': "?m' n = Some (Fin (max v a))"
    using Cons.prems(1,2) v by (simp add: createMaximumStatsObject_inner_member)
  have "0 \<le> max v a" using v by simp
  then have "\<exists>b. createMaximumStatsObject_outer ss ns ?m' n = Some (Fin b)
           \<and> (b = max v a \<or> (\<exists>s\<in>set ss. s n = Some (Fin b)))"
    using Cons.IH[of ?m' "max v a"] Cons.prems(1,4) m' by simp
  then obtain b where b: "createMaximumStatsObject_outer ss ns ?m' n = Some (Fin b)"
     "b = max v a \<or> (\<exists>s\<in>set ss. s n = Some (Fin b))" by auto
  from b(2) have "b = a \<or> (\<exists>s'\<in>set (s # ss). s' n = Some (Fin b))"
    using v by (auto simp: max_def)
  then show ?case using b(1) by auto
qed

subsection \<open>C1: a cross-class maximum of 0\<close>

text \<open>
  C1 says that the percentage of a stat whose cross-class maximum is 0 is the number 0.
  \<open>createPercentageStats\<close> divides without looking at the divisor. With a single class whose
  ATP is 0, the maximum of ATP is 0 and the percentage is \<open>(0 / 0) * 100\<close>, which is NaN.
\<close>

theorem C1_zero_maximum_counterexample:
  "createMaximumStatsObject [[''ATP'' \<mapsto> Fin 0]] [''ATP''] ''ATP'' = Some (Fin 0)
   \<and> createPercentageStats [''ATP'' \<mapsto> Fin 0]
        (createMaximumStatsObject [[''ATP'' \<mapsto> Fin 0]] [''ATP'']) [''ATP''] ''ATP'' = Some NaN
   \<and> createPercentageStats [''ATP'' \<mapsto> Fin 0]
        (createMaximumStatsObject [[''ATP'' \<mapsto> Fin 0]] [''ATP'']) [''ATP''] ''ATP'' \<noteq> Some (Fin 0)"
  by (simp add: createMaximumStatsObject_def createPercentageStats_def zeroStats_def)

text \<open>
  C1 as amended: for every stat name in \<open>statNames\<close> whose maximum is 0, the percentage is
  \<open>(value / 0) * 100\<close>, hence never a finite number: it is NaN, +Infinity or -Infinity, and it
  is NaN when the class's own value is 0.
\<close>

theorem C1_zero_maximum_not_finite:
  assumes "n \<in> set statNames" and "maximumStatsObject n = Some (Fin 0)"
  shows "createPercentageStats characterStatsAtLevel maximumStatsObject statNames n
           = Some (js_mul (js_div (toNumber (characterStatsAtLevel n)) (Fin 0)) (Fin 100))
         \<and> createPercentageStats characterStatsAtLevel maximumStatsObject statNames n
           \<in> {Some NaN, Some PosInf, Some NegInf}
         \<and> (characterStatsAtLevel n = Some (Fin 0) \<longrightarrow>
              createPercentageStats characterStatsAtLevel maximumStatsObject statNames n = Some NaN)"
proof -
  let ?q = "js_div (toNumber (characterStatsAtLevel n)) (Fin 0)"
  have eq: "createPercentageStats characterStatsAtLevel maximumStatsObject statNames n
              = Some (js_mul ?q (Fin 100))"
    using assms by (simp add: createPercentageStats_member)
  have "?q = NaN \<or> ?q = PosInf \<or> ?q = NegInf" by (rule js_div_zero_cases)
  then have "js_mul ?q (Fin 100) \<in> {NaN, PosInf, NegInf}" by auto
  moreover have "characterStatsAtLevel n = Some (Fin 0) \<Longrightarrow> js_mul ?q (Fin 100) = NaN" by simp
  ultimately show ?thesis using eq by auto
qed

text \<open>C1, witness: a class with HP 7 against a maximum of 0 gets +Infinity.\<close>

theorem C1_zero_maximum_not_finite_witness:
  "''HP'' \<in> set [''ATP'', ''HP''] \<and> [''HP'' \<mapsto> Fin 0] ''HP'' = Some (Fin 0)
   \<and> createPercentageStats [''HP'' \<mapsto> Fin 7] [''HP'' \<mapsto> Fin 0] [''ATP'', ''HP''] ''HP''
       = Some PosInf"
  using C1_zero_maximum_not_finite [of "''HP''" "[''ATP'', ''HP'']" "[''HP'' \<mapsto> Fin 0]"
      "[''HP'' \<mapsto> Fin 7]"]
  by simp

subsection \<open>C4: percentages between 0 and 100\<close>

text \<open>
  C4 says that every percentage lies between 0 and 100 and that a class whose value equals
  the cross-class maximum gets exactly 100. With two classes whose HP is 0 the maximum is
  0, the first class's value equals it, and its percentage is NaN: neither \<open>0 <= NaN\<close> nor
  \<open>NaN <= 100\<close> holds, and NaN is not 100.
\<close>

theorem C4_percentage_range_counterexample:
  "createMaximumStatsObject [[''HP'' \<mapsto> Fin 0], [''HP'' \<mapsto> Fin 0]] [''HP''] ''HP''
     = [''HP'' \<mapsto> Fin 0] ''HP''
   \<and> createPercentageStats [''HP'' \<mapsto> Fin 0]
        (createMaximumStatsObject [[''HP'' \<mapsto> Fin 0], [''HP'' \<mapsto> Fin 0]] [''HP''])
        [''HP''] ''HP'' = Some NaN
   \<and> \<not> js_le (Fin 0) NaN \<and> \<not> js_le NaN (Fin 100) \<and> NaN \<noteq> Fin 100"
  by (simp add: createMaximumStatsObject_def createPercentageStats_def zeroStats_def)

text \<open>
  C4 as amended: for each of the seven stat names that is in \<open>statNames\<close>, if every class's
  value for it is a finite non-negative number and at least one is positive (so that the
  cross-class maximum is not 0), then \<open>createMaximumStatsObject\<close> yields the greatest of the
  classes' values, a value that some class has; the percentage of every class of the
  dataset is a finite number between 0 and 100; it is exactly 100 precisely for the classes
  whose value is that maximum, in particular for a class whose value is at least every
  class's value. (The snapshot of a selected class is among the snapshots of all classes,
  see \<open>selected_snapshot_among_all\<close> below.)
\<close>

theorem C4_percentage_range:
  assumes "n \<in> set statNames" and "n \<in> dom zeroStats"
    and "\<forall>s\<in>set allCharacterStatsAtLevel. \<exists>v. s n = Some (Fin v) \<and> 0 \<le> v"
    and "characterStatsAtLevel \<in> set allCharacterStatsAtLevel"
    and "\<exists>s\<in>set allCharacterStatsAtLevel. \<exists>v. s n = Some (Fin v) \<and> 0 < v"
  shows "\<exists>b p. createMaximumStatsObject allCharacterStatsAtLevel statNames n = Some (Fin b)
             \<and> 0 < b
             \<and> (\<forall>s\<in>set allCharacterStatsAtLevel. \<forall>v. s n = Some (Fin v) \<longrightarrow> v \<le> b)
             \<and> (\<exists>s\<in>set allCharacterStatsAtLevel. s n = Some (Fin b))
             \<and> createPercentageStats characterStatsAtLevel
                 (createMaximumStatsObject allCharacterStatsAtLevel statNames) statNames n
                 = Some (Fin p)
             \<and> 0 \<le> p \<and> p \<le> 100
             \<and> (p = 100) = (characterStatsAtLevel n = Some (Fin b))
             \<and> ((\<forall>s\<in>set allCharacterStatsAtLevel.
                    js_le (toNumber (s n)) (toNumber (characterStatsAtLevel n)))
                  \<longrightarrow> p = 100)"
proof -
  let ?mx = "createMaximumStatsObject allCharacterStatsAtLevel statNames"
  have z: "zeroStats n = Some (Fin 0)"
    using assms(2) by (auto simp: zeroStats_def split: if_splits)
  have "\<exists>b. createMaximumStatsObject_outer allCharacterStatsAtLevel statNames zeroStats n
               = Some (Fin b)
           \<and> 0 \<le> b
           \<and> (\<forall>s\<in>set allCharacterStatsAtLevel. \<forall>v. s n = Some (Fin v) \<longrightarrow> v \<le> b)"
    using createMaximumStatsObject_outer_bound
            [of n statNames zeroStats 0 allCharacterStatsAtLevel] assms(1,3) z
    by simp
  then obtain b where b: "?mx n = Some (Fin b)" "0 \<le> b"
     "\<forall>s\<in>set allCharacterStatsAtLevel. \<forall>v. s n = Some (Fin v) \<longrightarrow> v \<le> b"
    by (auto simp: createMaximumStatsObject_def)
  have "\<exists>b'. createMaximumStatsObject_outer allCharacterStatsAtLevel statNames zeroStats n
               = Some (Fin b')
           \<and> (b' = 0 \<or> (\<exists>s\<in>set allCharacterStatsAtLevel. s n = Some (Fin b')))"
    using createMaximumStatsObject_outer_attained
            [of n statNames zeroStats 0 allCharacterStatsAtLevel] assms(1,3) z
    by simp
  then have att0: "b = 0 \<or> (\<exists>s\<in>set allCharacterStatsAtLevel. s n = Some (Fin b))"
    using b(1) by (auto simp: createMaximumStatsObject_def)
  from assms(5) obtain s0 v0 where s0: "s0 \<in> set allCharacterStatsAtLevel"
    "s0 n = Some (Fin v0)" "0 < v0" by auto
  then have "v0 \<le> b" using b(3) by auto
  then have bpos: "0 < b" using s0(3) by linarith
  then have att: "\<exists>s\<in>set allCharacterStatsAtLevel. s n = Some (Fin b)" using att0 by auto
  from assms(3,4) obtain v where v: "characterStatsAtLevel n = Some (Fin v)" "0 \<le> v"
    by auto
  have vb: "v \<le> b" using b(3) assms(4) v by auto
  have pct: "createPercentageStats characterStatsAtLevel ?mx statNames n
               = Some (Fin (v / b * 100))"
    using assms(1) b(1) v bpos by (simp add: createPercentageStats_member)
  have p0: "0 \<le> v / b * 100" using v bpos by simp
  have p1: "v / b * 100 \<le> 100" using vb bpos by (simp add: divide_le_eq)
  have p2: "(v / b * 100 = 100) = (characterStatsAtLevel n = Some (Fin b))"
    using v bpos by (auto simp: field_simps)
  have p3: "v / b * 100 = 100"
    if "\<forall>s\<in>set allCharacterStatsAtLevel.
          js_le (toNumber (s n)) (toNumber (characterStatsAtLevel n))"
  proof -
    from att obtain s where s: "s \<in> set allCharacterStatsAtLevel" "s n = Some (Fin b)" by auto
    with that have "js_le (Fin b) (Fin v)" using v by force
    then have "b = v" using vb by simp
    then show ?thesis using bpos by simp
  qed
  show ?thesis using b(1) bpos b(3) att pct p0 p1 p2 p3 by blast
qed

text \<open>
  C4, witness: ATP is 10 for one class and 20 for the other; the maximum is 20, and the
  class with 20 gets exactly 100.
\<close>

theorem C4_percentage_range_witness:
  "''ATP'' \<in> set [''ATP'', ''HP''] \<and> ''ATP'' \<in> dom zeroStats
   \<and> [''ATP'' \<mapsto> Fin 10] ''ATP'' = Some (Fin 10) \<and> [''ATP'' \<mapsto> Fin 20] ''ATP'' = Some (Fin 20)
   \<and> [''ATP'' \<mapsto> Fin 20] \<in> set [[''ATP'' \<mapsto> Fin 10], [''ATP'' \<mapsto> Fin 20]]
   \<and> createMaximumStatsObject [[''ATP'' \<mapsto> Fin 10], [''ATP'' \<mapsto> Fin 20]] [''ATP'', ''HP'']
        ''ATP'' = Some (Fin 20)
   \<and> createPercentageStats [''ATP'' \<mapsto> Fin 20]
        (createMaximumStatsObject [[''ATP'' \<mapsto> Fin 10], [''ATP'' \<mapsto> Fin 20]] [''ATP'', ''HP''])
        [''ATP'', ''HP''] ''ATP'' = Some (Fin 100)"
proof -
  have h1: "''ATP'' \<in> set [''ATP'', ''HP'']" by simp
  have h2: "''ATP'' \<in> dom zeroStats" by (simp add: zeroStats_def)
  have h3: "\<forall>s\<in>set [[''ATP'' \<mapsto> Fin 10], [''ATP'' \<mapsto> Fin 20]].
              \<exists>v. s ''ATP'' = Some (Fin v) \<and> 0 \<le> v"
    by simp
  have h4: "[''ATP'' \<mapsto> Fin 20] \<in> set [[''ATP'' \<mapsto> Fin 10], [''ATP'' \<mapsto> Fin 20]]"
    by simp
  have h5: "\<exists>s\<in>set [[''ATP'' \<mapsto> Fin 10], [''ATP'' \<mapsto> Fin 20]].
              \<exists>v. s ''ATP'' = Some (Fin v) \<and> 0 < v"
    by simp
  have h6: "\<forall>s\<in>set [[''ATP'' \<mapsto> Fin 10], [''ATP'' \<mapsto> Fin 20]].
              js_le (toNumber (s ''ATP'')) (toNumber ([''ATP'' \<mapsto> Fin 20] ''ATP''))"
    by simp
  from C4_percentage_range [OF h1 h2 h3 h4 h5] h6
  obtain b where "createMaximumStatsObject [[''ATP'' \<mapsto> Fin 10], [''ATP'' \<mapsto> Fin 20]]
      [''ATP'', ''HP''] ''ATP'' = Some (Fin b)"
    "createPercentageStats [''ATP'' \<mapsto> Fin 20]
        (createMaximumStatsObject [[''ATP'' \<mapsto> Fin 10], [''ATP'' \<mapsto> Fin 20]] [''ATP'', ''HP''])
        [''ATP'', ''HP''] ''ATP'' = Some (Fin 100)"
    "([''ATP'' \<mapsto> Fin 20 :: jsnum] ''ATP'' = Some (Fin b))"
    by blast
  then show ?thesis using h1 h2 h4 by simp
qed

section \<open>Properties of the radar assembly\<close>

lemma createRadarChartDataSets_body_Inl:
  "createRadarChartDataSets_body g c allClassData characterColors lvl ns = Inl e \<Longrightarrow>
   e = NotFoundError"
  by (auto simp: createRadarChartDataSets_body_def getCharacterClassDataObject_def
        getCharacterColor_def Let_def
      split: option.splits sum.splits)

lemma createRadarChartDataSets_body_Inr:
  "createRadarChartDataSets_body g c allClassData characterColors lvl ns = Inr d \<Longrightarrow>
   \<exists>cd cc. getCharacterClassDataObject c allClassData = Inr cd
     \<and> getCharacterColor characterColors c = Inr cc
     \<and> d = createRadarChartDataSet c
           (createStatArray
              (createPercentageStats (g cd lvl)
                 (createMaximumStatsObject (createStatAtLevelArray g allClassData lvl) ns) ns)
              ns)
           (color cc)"
  by (auto simp: createRadarChartDataSets_body_def Let_def split: sum.splits)

lemma createRadarChartDataSets_loop_Inl:
  "createRadarChartDataSets_loop g cs allClassData characterColors lvl ns acc = Inl e \<Longrightarrow>
   e = NotFoundError"
  by (induction cs arbitrary: acc)
     (auto split: sum.splits dest: createRadarChartDataSets_body_Inl)

text \<open>The loop succeeds exactly when its body does for every class, and appends in order.\<close>

lemma createRadarChartDataSets_loop_Inr:
  "createRadarChartDataSets_loop g cs allClassData characterColors lvl ns acc = Inr res \<longleftrightarrow>
   (\<forall>c\<in>set cs. \<exists>d. createRadarChartDataSets_body g c allClassData characterColors lvl ns = Inr d)
   \<and> res = acc @ map (\<lambda>c. projr (createRadarChartDataSets_body g c allClassData characterColors
                                      lvl ns)) cs"
proof (induction cs arbitrary: acc)
  case Nil
  then show ?case by auto
next
  case (Cons c cs)
  show ?case
  proof (cases "createRadarChartDataSets_body g c allClassData characterColors lvl ns")
    case (Inl e)
    then show ?thesis by auto
  next
    case (Inr d)
    then show ?thesis using Cons.IH[of "acc @ [d]"] by auto
  qed
qed

lemma createRadarChartDataSet_fields:
  "label (createRadarChartDataSet c v col) = c"
  "dataSet.data (createRadarChartDataSet c v col) = v"
  by (simp_all add: createRadarChartDataSet_def)

lemma createRadarChartObject_fields:
  "radarData.datasets (radarChartObject.data (createRadarChartObject l ds t)) = ds"
  "radarData.labels (radarChartObject.data (createRadarChartObject l ds t)) = l"
  "radarChartObject.type (createRadarChartObject l ds t) = ''radar''"
  "text (radarOptions.title (radarChartObject.options (createRadarChartObject l ds t))) = t"
  by (simp_all add: createRadarChartObject_def)

lemma assembleRadarChartObject_Inr:
  "assembleRadarChartObject g sel allClassData characterColors lvl ns = Inr obj \<longleftrightarrow>
   (\<forall>c\<in>set sel. \<exists>d. createRadarChartDataSets_body g c allClassData characterColors lvl ns = Inr d)
   \<and> obj = createRadarChartObject (map String ns)
        (map (\<lambda>c. projr (createRadarChartDataSets_body g c allClassData characterColors lvl ns))
           sel)
        ''Class stats''"
proof (cases "\<forall>c\<in>set sel. \<exists>d. createRadarChartDataSets_body g c allClassData characterColors
                                  lvl ns = Inr d")
  case True
  then have "createRadarChartDataSets_loop g sel allClassData characterColors lvl ns [] =
      Inr (map (\<lambda>c. projr (createRadarChartDataSets_body g c allClassData characterColors
                             lvl ns)) sel)"
    by (simp add: createRadarChartDataSets_loop_Inr)
  then show ?thesis using True
    by (auto simp: assembleRadarChartObject_def createRadarChartDataSets_def)
next
  case False
  then have "createRadarChartDataSets_loop g sel allClassData characterColors lvl ns [] \<noteq> Inr res"
    for res
    by (simp add: createRadarChartDataSets_loop_Inr)
  then show ?thesis using False
    by (auto simp: assembleRadarChartObject_def createRadarChartDataSets_def split: sum.splits)
qed

lemma assembleRadarChartObject_unknown_class:
  assumes "c \<in> set sel" and "c \<notin> className ` set allClassData"
  shows "assembleRadarChartObject g sel allClassData characterColors lvl ns = Inl NotFoundError"
proof (cases "assembleRadarChartObject g sel allClassData characterColors lvl ns")
  case (Inl e)
  then show ?thesis
    by (auto simp: assembleRadarChartObject_def createRadarChartDataSets_def
        split: sum.splits dest: createRadarChartDataSets_loop_Inl)
next
  case (Inr obj)
  with assms(1) obtain d
    where "createRadarChartDataSets_body g c allClassData characterColors lvl ns = Inr d"
    by (auto simp: assembleRadarChartObject_Inr)
  from createRadarChartDataSets_body_Inr[OF this] assms(2) show ?thesis
    by (auto simp: getCharacterClassDataObject_def split: option.splits
        dest: find_Some_iff[THEN iffD1])
qed

text \<open>
  The snapshot of a selected class is one of the snapshots the maximum is taken over:
  the class object comes out of \<open>allClassData\<close> itself.
\<close>

lemma getCharacterClassDataObject_member:
  "getCharacterClassDataObject c allClassData = Inr cd \<Longrightarrow>
   cd \<in> set allClassData \<and> className cd = c"
  by (auto simp: getCharacterClassDataObject_def split: option.splits
      dest: find_Some_iff[THEN iffD1])

lemma createStatAtLevelArray_map:
  "createStatAtLevelArray g allCharacters lvl = map (\<lambda>c. g c lvl) allCharacters"
  by (induction allCharacters) auto

lemma selected_snapshot_among_all:
  "getCharacterClassDataObject c allClassData = Inr cd \<Longrightarrow>
   g cd lvl \<in> set (createStatAtLevelArray g allClassData lvl)"
  by (auto simp: createStatAtLevelArray_map dest: getCharacterClassDataObject_member)

lemmas radar_eval =
  assembleRadarChartObject_def createRadarChartDataSets_def createRadarChartDataSets_body_def
  getCharacterClassDataObject_def getCharacterColor_def getStatsAtLevel_lookup_def
  createMaximumStatsObject_def createPercentageStats_def zeroStats_def Let_def
  sampleClassData_def sampleCharacterColors_def

section \<open>Properties of the line graph assembler\<close>

lemma ceil5: "\<lceil>real_of_int x / 5\<rceil> = - ((- x) div 5)"
  using ceiling_divide_eq_div[of x 5, where 'a=real] by simp

lemma ceil5_ge: "x \<le> \<lceil>real_of_int x / 5\<rceil> * 5"
  unfolding ceil5 by presburger

lemma ceil5_dvd: "5 dvd \<lceil>real_of_int x / 5\<rceil> * 5"
  by simp

lemma ceil5_mono: "x \<le> y \<Longrightarrow> \<lceil>real_of_int x / 5\<rceil> * 5 \<le> \<lceil>real_of_int y / 5\<rceil> * 5"
  by (simp add: ceiling_mono divide_right_mono)

lemma ceil5_fixed: "5 dvd x \<Longrightarrow> \<lceil>real_of_int x / 5\<rceil> * 5 = x"
  unfolding ceil5 by presburger

lemma length_createSingleStatArray_loop:
  "length (createSingleStatArray_loop st es) = length es"
  by (induction es) auto

lemma length_createSingleStatArray:
  "length (createSingleStatArray st cd) = length (levelData cd)"
  by (simp add: createSingleStatArray_def length_createSingleStatArray_loop)

lemma assembleLineGraphObject_body_Inr:
  "assembleLineGraphObject_body i n c st allClassData allStatColors s e = Inr d \<Longrightarrow>
   \<exists>cd rgb. getCharacterClassDataObject c allClassData = Inr cd
     \<and> getStatColor st allStatColors (real i * (100 / real n)) = Inr rgb
     \<and> d = createLineChartDataSet
           (createSingleStatArray st (getCharacterClassDataInRange s e cd))
           (c @ ''('' @ st @ '')'') rgb"
  by (auto simp: assembleLineGraphObject_body_def Let_def split: sum.splits)

lemma assembleLineGraphObject_body_Inl:
  "assembleLineGraphObject_body i n c st allClassData allStatColors s e = Inl err \<Longrightarrow>
   (getCharacterClassDataObject c allClassData = Inl NotFoundError \<and> err = NotFoundError)
   \<or> (allStatColors st = None \<and> err = UnknownStatError)"
  by (auto simp: assembleLineGraphObject_body_def Let_def getCharacterClassDataObject_def
        getStatColor_def
      split: sum.splits option.splits)

lemma assembleLineGraphObject_body_ok:
  "getCharacterClassDataObject c allClassData = Inr cd \<Longrightarrow> allStatColors st = Some base \<Longrightarrow>
   \<exists>d. assembleLineGraphObject_body i n c st allClassData allStatColors s e = Inr d"
  by (auto simp: assembleLineGraphObject_body_def Let_def getStatColor_def)

lemma assembleLineGraphObject_inner_Inr:
  "assembleLineGraphObject_inner i n c sts allClassData allStatColors s e acc = Inr res \<longleftrightarrow>
   (\<forall>st\<in>set sts. \<exists>d. assembleLineGraphObject_body i n c st allClassData allStatColors s e = Inr d)
   \<and> res = acc @ map (\<lambda>st. projr (assembleLineGraphObject_body i n c st allClassData
                                       allStatColors s e)) sts"
proof (induction sts arbitrary: acc)
  case Nil
  then show ?case by auto
next
  case (Cons st sts)
  show ?case
  proof (cases "assembleLineGraphObject_body i n c st allClassData allStatColors s e")
    case (Inl err)
    then show ?thesis by auto
  next
    case (Inr d)
    then show ?thesis using Cons.IH[of "acc @ [d]"] by auto
  qed
qed

lemma assembleLineGraphObject_inner_Inl:
  "assembleLineGraphObject_inner i n c sts allClassData allStatColors s e acc = Inl err \<Longrightarrow>
   \<exists>st\<in>set sts. assembleLineGraphObject_body i n c st allClassData allStatColors s e = Inl err"
  by (induction sts arbitrary: acc) (auto split: sum.splits)

text \<open>
  The outer loop succeeds exactly when the body does for every pair of a class (with its
  index) and a stat; the datasets come class by class, and stat by stat within a class.
\<close>

lemma assembleLineGraphObject_outer_Inr:
  "assembleLineGraphObject_outer i n cs sts allClassData allStatColors s e acc = Inr res \<longleftrightarrow>
   (\<forall>(k, c)\<in>set (enumerate i cs). \<forall>st\<in>set sts.
       \<exists>d. assembleLineGraphObject_body k n c st allClassData allStatColors s e = Inr d)
   \<and> res = acc @ concat (map (\<lambda>(k, c).
               map (\<lambda>st. projr (assembleLineGraphObject_body k n c st allClassData
                                   allStatColors s e)) sts)
             (enumerate i cs))"
proof (induction cs arbitrary: i acc)
  case Nil
  then show ?case by auto
next
  case (Cons c cs)
  show ?case
  proof (cases "assembleLineGraphObject_inner i n c sts allClassData allStatColors s e acc")
    case (Inl err)
    then have "\<not> (\<forall>st\<in>set sts. \<exists>d. assembleLineGraphObject_body i n c st allClassData
                                        allStatColors s e = Inr d)"
      using assembleLineGraphObject_inner_Inr[of i n c sts allClassData allStatColors s e acc]
      by auto
    then show ?thesis using Inl by auto
  next
    case (Inr acc')
    then have a: "\<forall>st\<in>set sts. \<exists>d. assembleLineGraphObject_body i n c st allClassData
                                       allStatColors s e = Inr d"
      and b: "acc' = acc @ map (\<lambda>st. projr (assembleLineGraphObject_body i n c st allClassData
                                               allStatColors s e)) sts"
      by (simp_all add: assembleLineGraphObject_inner_Inr)
    show ?thesis using Inr a b Cons.IH[of "Suc i" acc'] by auto
  qed
qed

lemma assembleLineGraphObject_outer_Inl:
  "assembleLineGraphObject_outer i n cs sts allClassData allStatColors s e acc = Inl err \<Longrightarrow>
   \<exists>(k, c)\<in>set (enumerate i cs). \<exists>st\<in>set sts.
      assembleLineGraphObject_body k n c st allClassData allStatColors s e = Inl err"
proof (induction cs arbitrary: i acc)
  case Nil
  then show ?case by simp
next
  case (Cons c cs)
  show ?case
  proof (cases "assembleLineGraphObject_inner i n c sts allClassData allStatColors s e acc")
    case (Inl err')
    then have "err' = err" using Cons.prems by simp
    then show ?thesis using assembleLineGraphObject_inner_Inl[OF Inl] by auto
  next
    case (Inr acc')
    then have "assembleLineGraphObject_outer (Suc i) n cs sts allClassData allStatColors s e
                 acc' = Inl err"
      using Cons.prems by simp
    from Cons.IH[OF this] show ?thesis by auto
  qed
qed

lemma enumerate_snd_in: "(k, c) \<in> set (enumerate i cs) \<Longrightarrow> c \<in> set cs"
  by (auto simp: in_set_enumerate_eq)

lemma enumerate_ex: "c \<in> set cs \<Longrightarrow> \<exists>k. (k, c) \<in> set (enumerate i cs)"
proof -
  assume "c \<in> set cs"
  then obtain j where "j < length cs" "cs ! j = c" by (auto simp: in_set_conv_nth)
  then have "(i + j, c) \<in> set (enumerate i cs)" by (simp add: in_set_enumerate_eq)
  then show ?thesis by blast
qed

lemma map_label_concat:
  "(\<And>k c st. (k, c) \<in> set xs \<Longrightarrow> st \<in> set sts \<Longrightarrow> label (g k c st) = f c st) \<Longrightarrow>
   map label (concat (map (\<lambda>(k, c). map (g k c) sts) xs))
     = concat (map (\<lambda>c. map (f c) sts) (map snd xs))"
  by (induction xs) auto

lemma length_concat_product:
  "length (concat (map (\<lambda>c. map (f c) sts) cs)) = length cs * length sts"
  by (induction cs) auto

lemma createLineGraphObject_fields:
  "lineData.datasets (lineGraphObject.data (createLineGraphObject l ds t)) = ds"
  "lineData.labels (lineGraphObject.data (createLineGraphObject l ds t)) = l"
  "lineGraphObject.type (createLineGraphObject l ds t) = ''line''"
  "text (lineOptions.title (lineData.options (lineGraphObject.data
      (createLineGraphObject l ds t)))) = t"
  by (simp_all add: createLineGraphObject_def)

lemma createLineChartDataSet_fields:
  "label (createLineChartDataSet v l col) = l"
  "dataSet.data (createLineChartDataSet v l col) = v"
  by (simp_all add: createLineChartDataSet_def)

lemma assembleLineGraphObject_Inr:
  "assembleLineGraphObject cs sts t allClassData allStatColors s e = Inr obj \<longleftrightarrow>
   (\<exists>ds. assembleLineGraphObject_outer 0 (length cs) cs sts allClassData allStatColors
            (fst (clampLevelRange s e)) (snd (clampLevelRange s e)) [] = Inr ds
     \<and> obj = createLineGraphObject
          (map (\<lambda>l. Number (Fin (real_of_int l)))
             (createLevelArray (fst (clampLevelRange s e)) (snd (clampLevelRange s e)))) ds t)"
  by (auto simp: assembleLineGraphObject_def Let_def split: prod.splits sum.splits)

lemma assembleLineGraphObject_Inl:
  "assembleLineGraphObject cs sts t allClassData allStatColors s e = Inl err \<longleftrightarrow>
   assembleLineGraphObject_outer 0 (length cs) cs sts allClassData allStatColors
     (fst (clampLevelRange s e)) (snd (clampLevelRange s e)) [] = Inl err"
  by (auto simp: assembleLineGraphObject_def Let_def split: prod.splits sum.splits)

lemma assembleLineGraphObject_error_kind:
  assumes "assembleLineGraphObject cs sts t allClassData allStatColors s e = Inl err"
  shows "err = NotFoundError \<or> (err = UnknownStatError \<and> (\<exists>st\<in>set sts. allStatColors st = None))"
proof -
  from assms have "assembleLineGraphObject_outer 0 (length cs) cs sts allClassData allStatColors
     (fst (clampLevelRange s e)) (snd (clampLevelRange s e)) [] = Inl err"
    by (simp add: assembleLineGraphObject_Inl)
  from assembleLineGraphObject_outer_Inl[OF this] show ?thesis
    by (auto dest: assembleLineGraphObject_body_Inl)
qed

text \<open>The stat array of a range-filtered table, entry by entry.\<close>

lemma createSingleStatArray_loop_map:
  "createSingleStatArray_loop st es = map (\<lambda>x. toValue (stats x st)) es"
  by (induction es) auto

lemma createSingleStatArray_in_range:
  "createSingleStatArray st (getCharacterClassDataInRange s e cd)
     = map (\<lambda>x. toValue (stats x st)) (filter (\<lambda>x. s \<le> level x \<and> level x \<le> e) (levelData cd))"
  by (simp add: createSingleStatArray_def getCharacterClassDataInRange_def
      createSingleStatArray_loop_map)

lemma map_concat_enumerate:
  "(\<And>k c st. (k, c) \<in> set xs \<Longrightarrow> st \<in> set sts \<Longrightarrow> h (g k c st) = f c st) \<Longrightarrow>
   map h (concat (map (\<lambda>(k, c). map (g k c) sts) xs))
     = concat (map (\<lambda>c. map (f c) sts) (map snd xs))"
  by (induction xs) auto

lemma assembleLineGraphObject_returns:
  assumes "\<forall>c\<in>set cs. \<exists>cd. getCharacterClassDataObject c allClassData = Inr cd"
    and "\<forall>st\<in>set sts. \<exists>base. allStatColors st = Some base"
  shows "\<exists>obj. assembleLineGraphObject cs sts t allClassData allStatColors s e = Inr obj"
proof -
  have "\<exists>d. assembleLineGraphObject_body k (length cs) c st allClassData allStatColors
               (fst (clampLevelRange s e)) (snd (clampLevelRange s e)) = Inr d"
    if "c \<in> set cs" "st \<in> set sts" for k c st
    using that assms assembleLineGraphObject_body_ok by blast
  then have "\<forall>(k, c)\<in>set (enumerate 0 cs). \<forall>st\<in>set sts.
       \<exists>d. assembleLineGraphObject_body k (length cs) c st allClassData allStatColors
               (fst (clampLevelRange s e)) (snd (clampLevelRange s e)) = Inr d"
    by (auto dest: enumerate_snd_in)
  then show ?thesis
    by (simp add: assembleLineGraphObject_Inr assembleLineGraphObject_outer_Inr)
qed

lemmas line_eval =
  assembleLineGraphObject_def assembleLineGraphObject_body_def clampLevelRange_def
  createLevelArray_def createLevelArray_loop.simps getCharacterClassDataObject_def
  getCharacterClassDataInRange_def getStatColor_def shiftChannel_def
  createSingleStatArray_def Let_def sampleClassData_def sampleStatColors_def

section \<open>Claims about the radar chart assembler\<close>

subsection \<open>C5: the percentage vector of a class does not depend on the selection\<close>

text \<open>
  C5: take two selections that both contain a class \<open>c\<close>, and suppose the radar assembler
  returns a chart for each, at the same level. Then each chart has a dataset labelled \<open>c\<close>,
  any two such datasets carry the same percentage vector, and that vector is computed
  from the class's own snapshot and the maximum over the snapshots of all classes of
  \<open>allClassData\<close>: the selection does not enter the divisor. This holds for every
  snapshot accessor.
\<close>

theorem C5_selection_independent:
  assumes "assembleRadarChartObject g sel1 allClassData characterColors lvl ns = Inr obj1"
    and "assembleRadarChartObject g sel2 allClassData characterColors lvl ns = Inr obj2"
    and "c \<in> set sel1" and "c \<in> set sel2"
  shows "(\<exists>d\<in>set (radarData.datasets (radarChartObject.data obj1)). label d = c)
       \<and> (\<exists>d\<in>set (radarData.datasets (radarChartObject.data obj2)). label d = c)
       \<and> (\<forall>d1\<in>set (radarData.datasets (radarChartObject.data obj1)).
          \<forall>d2\<in>set (radarData.datasets (radarChartObject.data obj2)).
            label d1 = c \<and> label d2 = c \<longrightarrow> dataSet.data d1 = dataSet.data d2)
       \<and> (\<forall>d\<in>set (radarData.datasets (radarChartObject.data obj1)). label d = c \<longrightarrow>
            (\<exists>cd. getCharacterClassDataObject c allClassData = Inr cd \<and>
              dataSet.data d =
                createStatArray
                  (createPercentageStats (g cd lvl)
                     (createMaximumStatsObject (createStatAtLevelArray g allClassData lvl) ns)
                     ns)
                  ns))"
proof -
  let ?b = "\<lambda>c. createRadarChartDataSets_body g c allClassData characterColors lvl ns"
  have ok1: "\<forall>c\<in>set sel1. \<exists>d. ?b c = Inr d"
    and o1: "radarData.datasets (radarChartObject.data obj1) = map (\<lambda>c. projr (?b c)) sel1"
    using assms(1) by (auto simp: assembleRadarChartObject_Inr createRadarChartObject_fields)
  have ok2: "\<forall>c\<in>set sel2. \<exists>d. ?b c = Inr d"
    and o2: "radarData.datasets (radarChartObject.data obj2) = map (\<lambda>c. projr (?b c)) sel2"
    using assms(2) by (auto simp: assembleRadarChartObject_Inr createRadarChartObject_fields)
  have lab: "label (projr (?b c')) = c'" if "\<exists>d. ?b c' = Inr d" for c'
  proof -
    from that obtain d where d: "?b c' = Inr d" by auto
    from createRadarChartDataSets_body_Inr[OF d] have "label d = c'"
      by (auto simp: createRadarChartDataSet_fields)
    then show ?thesis using d by simp
  qed
  from ok1 assms(3) obtain d where d: "?b c = Inr d" by auto
  from createRadarChartDataSets_body_Inr[OF d]
  obtain cd where cd: "getCharacterClassDataObject c allClassData = Inr cd"
     "dataSet.data d =
        createStatArray
          (createPercentageStats (g cd lvl)
             (createMaximumStatsObject (createStatAtLevelArray g allClassData lvl) ns) ns)
          ns"
    by (auto simp: createRadarChartDataSet_fields)
  have only1: "d' = d" if "d' \<in> set (map (\<lambda>c. projr (?b c)) sel1)" "label d' = c" for d'
  proof -
    from that(1) obtain c' where c': "c' \<in> set sel1" "d' = projr (?b c')" by auto
    then have "label d' = c'" using lab ok1 by auto
    then show ?thesis using that(2) c' d by simp
  qed
  have only2: "d' = d" if "d' \<in> set (map (\<lambda>c. projr (?b c)) sel2)" "label d' = c" for d'
  proof -
    from that(1) obtain c' where c': "c' \<in> set sel2" "d' = projr (?b c')" by auto
    then have "label d' = c'" using lab ok2 by auto
    then show ?thesis using that(2) c' d by simp
  qed
  have dl: "label d = c" using lab[of c] d by simp
  have in1: "d \<in> set (map (\<lambda>c. projr (?b c)) sel1)" using assms(3) d by force
  have in2: "d \<in> set (map (\<lambda>c. projr (?b c)) sel2)" using assms(4) d by force
  have c1: "\<exists>d\<in>set (radarData.datasets (radarChartObject.data obj1)). label d = c"
    unfolding o1 using in1 dl by blast
  have c2: "\<exists>d\<in>set (radarData.datasets (radarChartObject.data obj2)). label d = c"
    unfolding o2 using in2 dl by blast
  have c3: "\<forall>d1\<in>set (radarData.datasets (radarChartObject.data obj1)).
          \<forall>d2\<in>set (radarData.datasets (radarChartObject.data obj2)).
            label d1 = c \<and> label d2 = c \<longrightarrow> dataSet.data d1 = dataSet.data d2"
    unfolding o1 o2 using only1 only2 by blast
  have c4: "\<forall>d\<in>set (radarData.datasets (radarChartObject.data obj1)). label d = c \<longrightarrow>
            (\<exists>cd. getCharacterClassDataObject c allClassData = Inr cd \<and>
              dataSet.data d =
                createStatArray
                  (createPercentageStats (g cd lvl)
                     (createMaximumStatsObject (createStatAtLevelArray g allClassData lvl) ns)
                     ns)
                  ns)"
    unfolding o1 using only1 cd by blast
  show ?thesis using c1 c2 c3 c4 by blast
qed

text \<open>
  C5, witness: on the sample data at level 5, HUcast alone and HUcast after RAmar both
  give HUcast the vector 50 (ATP 10 of 20) and 100 (HP 40 of 40).
\<close>

theorem C5_selection_independent_witness:
  "assembleRadarChartObject getStatsAtLevel_lookup [''HUcast''] sampleClassData
     sampleCharacterColors 5 [''ATP'', ''HP'']
   = Inr (createRadarChartObject [String ''ATP'', String ''HP'']
            [createRadarChartDataSet ''HUcast'' [Number (Fin 50), Number (Fin 100)]
               \<lparr>red = 200, green = 30, blue = 30\<rparr>]
            ''Class stats'')
   \<and> assembleRadarChartObject getStatsAtLevel_lookup [''RAmar'', ''HUcast''] sampleClassData
       sampleCharacterColors 5 [''ATP'', ''HP'']
   = Inr (createRadarChartObject [String ''ATP'', String ''HP'']
            [createRadarChartDataSet ''RAmar'' [Number (Fin 100), Number (Fin 75)]
               \<lparr>red = 30, green = 30, blue = 200\<rparr>,
             createRadarChartDataSet ''HUcast'' [Number (Fin 50), Number (Fin 100)]
               \<lparr>red = 200, green = 30, blue = 30\<rparr>]
            ''Class stats'')
   \<and> ''HUcast'' \<in> set [''HUcast''] \<and> ''HUcast'' \<in> set [''RAmar'', ''HUcast'']"
proof -
  have h1: "assembleRadarChartObject getStatsAtLevel_lookup [''HUcast''] sampleClassData
     sampleCharacterColors 5 [''ATP'', ''HP'']
   = Inr (createRadarChartObject [String ''ATP'', String ''HP'']
            [createRadarChartDataSet ''HUcast'' [Number (Fin 50), Number (Fin 100)]
               \<lparr>red = 200, green = 30, blue = 30\<rparr>]
            ''Class stats'')"
    by (simp add: radar_eval)
  have h2: "assembleRadarChartObject getStatsAtLevel_lookup [''RAmar'', ''HUcast'']
     sampleClassData sampleCharacterColors 5 [''ATP'', ''HP'']
   = Inr (createRadarChartObject [String ''ATP'', String ''HP'']
            [createRadarChartDataSet ''RAmar'' [Number (Fin 100), Number (Fin 75)]
               \<lparr>red = 30, green = 30, blue = 200\<rparr>,
             createRadarChartDataSet ''HUcast'' [Number (Fin 50), Number (Fin 100)]
               \<lparr>red = 200, green = 30, blue = 30\<rparr>]
            ''Class stats'')"
    by (simp add: radar_eval)
  have h3: "''HUcast'' \<in> set [''HUcast'']" by simp
  have h4: "''HUcast'' \<in> set [''RAmar'', ''HUcast'']" by simp
  show ?thesis using h1 h2 h3 h4 C5_selection_independent [OF h1 h2 h3 h4] by simp
qed

subsection \<open>C10: the radar title\<close>

text \<open>
  C10: whenever the radar assembler returns a chart, its title text is the fixed string
  \<open>Class stats\<close>. The assembler has no title parameter.
\<close>

theorem C10_radar_title_fixed:
  "assembleRadarChartObject g sel allClassData characterColors lvl ns = Inr obj \<Longrightarrow>
   text (radarOptions.title (radarChartObject.options obj)) = ''Class stats''"
  by (auto simp: assembleRadarChartObject_Inr createRadarChartObject_fields)

text \<open>C10, witness: the chart of RAmar at level 10 on the sample data.\<close>

theorem C10_radar_title_fixed_witness:
  "assembleRadarChartObject getStatsAtLevel_lookup [''RAmar''] sampleClassData
     sampleCharacterColors 10 [''HP'']
   = Inr (createRadarChartObject [String ''HP'']
            [createRadarChartDataSet ''RAmar'' [Number (Fin 75)]
               \<lparr>red = 30, green = 30, blue = 200\<rparr>]
            ''Class stats'')
   \<and> text (radarOptions.title (radarChartObject.options
        (createRadarChartObject [String ''HP'']
            [createRadarChartDataSet ''RAmar'' [Number (Fin 75)]
               \<lparr>red = 30, green = 30, blue = 200\<rparr>]
            ''Class stats''))) = ''Class stats''"
proof -
  have h: "assembleRadarChartObject getStatsAtLevel_lookup [''RAmar''] sampleClassData
     sampleCharacterColors 10 [''HP'']
   = Inr (createRadarChartObject [String ''HP'']
            [createRadarChartDataSet ''RAmar'' [Number (Fin 75)]
               \<lparr>red = 30, green = 30, blue = 200\<rparr>]
            ''Class stats'')"
    by (simp add: radar_eval)
  show ?thesis using h C10_radar_title_fixed [OF h] by simp
qed

section \<open>Claims about the line graph assembler\<close>

subsection \<open>C6: the clamped level range\<close>

text \<open>
  C6: a level range is taken as valid when it is ordered and reaches into the supported
  levels (\<open>start <= end\<close>, \<open>start <= 200\<close>, \<open>1 <= end\<close>); every range within 5..200 is, and
  so is every range the click handler passes on (it calls the assembler only when
  \<open>start < end\<close> holds after its own clamping). For such a range the clamped bounds satisfy
  \<open>5 <= start' <= end' <= 200\<close>, both are multiples of 5, a start that is a multiple of 5
  and at least 5 is unchanged, and an end that is a multiple of 5 and at most 200 is
  unchanged.
\<close>

theorem C6_clamped_range:
  assumes "startLevel \<le> endLevel" and "startLevel \<le> 200" and "1 \<le> endLevel"
  shows "5 \<le> fst (clampLevelRange startLevel endLevel)
       \<and> fst (clampLevelRange startLevel endLevel) \<le> snd (clampLevelRange startLevel endLevel)
       \<and> snd (clampLevelRange startLevel endLevel) \<le> 200
       \<and> 5 dvd fst (clampLevelRange startLevel endLevel)
       \<and> 5 dvd snd (clampLevelRange startLevel endLevel)
       \<and> (5 \<le> startLevel \<and> 5 dvd startLevel \<longrightarrow>
            fst (clampLevelRange startLevel endLevel) = startLevel)
       \<and> (endLevel \<le> 200 \<and> 5 dvd endLevel \<longrightarrow>
            snd (clampLevelRange startLevel endLevel) = endLevel)"
proof -
  define s1 where "s1 = (if startLevel < 5 then 5 else startLevel)"
  define e1 where "e1 = (if endLevel > 200 then 200 else endLevel)"
  have f: "fst (clampLevelRange startLevel endLevel) = \<lceil>real_of_int s1 / 5\<rceil> * 5"
    and s: "snd (clampLevelRange startLevel endLevel) = \<lceil>real_of_int e1 / 5\<rceil> * 5"
    by (simp_all add: clampLevelRange_def Let_def s1_def e1_def)
  have s1: "5 \<le> s1" "s1 \<le> 200" using assms by (auto simp: s1_def)
  have e1: "1 \<le> e1" "e1 \<le> 200" using assms by (auto simp: e1_def)
  have c1: "5 \<le> \<lceil>real_of_int s1 / 5\<rceil> * 5" using ceil5_ge[of s1] s1 by linarith
  have c3: "\<lceil>real_of_int e1 / 5\<rceil> * 5 \<le> 200" using ceil5_mono[OF e1(2)] by simp
  have c2: "\<lceil>real_of_int s1 / 5\<rceil> * 5 \<le> \<lceil>real_of_int e1 / 5\<rceil> * 5"
  proof (cases "s1 \<le> e1")
    case True
    then show ?thesis by (rule ceil5_mono)
  next
    case False
    then have "s1 = 5" using assms by (auto simp: s1_def e1_def split: if_splits)
    moreover have "5 \<le> \<lceil>real_of_int e1 / 5\<rceil> * 5"
    proof -
      have "\<lceil>real_of_int 1 / 5\<rceil> * 5 = (5::int)" unfolding ceil5 by simp
      then show ?thesis using ceil5_mono[OF e1(1)] by simp
    qed
    ultimately show ?thesis by simp
  qed
  have c6: "5 \<le> startLevel \<and> 5 dvd startLevel \<longrightarrow> \<lceil>real_of_int s1 / 5\<rceil> * 5 = startLevel"
    by (auto simp: s1_def ceil5_fixed)
  have c7: "endLevel \<le> 200 \<and> 5 dvd endLevel \<longrightarrow> \<lceil>real_of_int e1 / 5\<rceil> * 5 = endLevel"
    by (auto simp: e1_def ceil5_fixed)
  show ?thesis unfolding f s using c1 c2 c3 c6 c7 ceil5_dvd by blast
qed

text \<open>
  C6, witness: the range 10 to 203. The start, a multiple of 5, stays 10; the end is
  lowered to 200.
\<close>

theorem C6_clamped_range_witness:
  "(10::int) \<le> 203 \<and> (10::int) \<le> 200 \<and> (1::int) \<le> 203
   \<and> 5 \<le> fst (clampLevelRange 10 203)
   \<and> fst (clampLevelRange 10 203) \<le> snd (clampLevelRange 10 203)
   \<and> snd (clampLevelRange 10 203) \<le> 200
   \<and> fst (clampLevelRange 10 203) = 10"
  using C6_clamped_range [of 10 203] by simp

subsection \<open>C7: one dataset per pair of a class and a stat\<close>

text \<open>
  C7: when every selected class has an entry in the dataset and every selected stat has a
  colour, the line assembler returns a chart with exactly
  \<open>|selectedClasses| * |selectedStats|\<close> datasets, whose labels are \<open><class>(<stat>)\<close> in
  the order of the Cartesian product, classes outermost. (The statement does not need the
  selections to be non-empty.)
\<close>

theorem C7_datasets_cartesian:
  assumes "\<forall>c\<in>set selectedClasses. \<exists>cd. getCharacterClassDataObject c allClassData = Inr cd"
    and "\<forall>st\<in>set selectedStats. \<exists>base. allStatColors st = Some base"
  shows "\<exists>obj. assembleLineGraphObject selectedClasses selectedStats titleText allClassData
                 allStatColors startLevel endLevel = Inr obj
    \<and> length (lineData.datasets (lineGraphObject.data obj))
        = length selectedClasses * length selectedStats
    \<and> map label (lineData.datasets (lineGraphObject.data obj))
        = concat (map (\<lambda>c. map (\<lambda>st. c @ ''('' @ st @ '')'') selectedStats) selectedClasses)"
proof -
  let ?s = "fst (clampLevelRange startLevel endLevel)"
  let ?e = "snd (clampLevelRange startLevel endLevel)"
  let ?b = "\<lambda>k c st. assembleLineGraphObject_body k (length selectedClasses) c st allClassData
                       allStatColors ?s ?e"
  let ?ds = "concat (map (\<lambda>(k, c). map (\<lambda>st. projr (?b k c st)) selectedStats)
                       (enumerate 0 selectedClasses))"
  have ok: "\<exists>d. ?b k c st = Inr d" if "c \<in> set selectedClasses" "st \<in> set selectedStats"
    for k c st
    using that assms assembleLineGraphObject_body_ok by blast
  then have "\<forall>(k, c)\<in>set (enumerate 0 selectedClasses). \<forall>st\<in>set selectedStats.
               \<exists>d. ?b k c st = Inr d"
    by (auto dest: enumerate_snd_in)
  then have out: "assembleLineGraphObject_outer 0 (length selectedClasses) selectedClasses
                    selectedStats allClassData allStatColors ?s ?e [] = Inr ?ds"
    by (simp add: assembleLineGraphObject_outer_Inr)
  have lab: "label (projr (?b k c st)) = c @ ''('' @ st @ '')''"
    if "c \<in> set selectedClasses" "st \<in> set selectedStats" for k c st
  proof -
    from ok[OF that] obtain d where d: "?b k c st = Inr d" by auto
    from assembleLineGraphObject_body_Inr[OF d] show ?thesis
      using d by (auto simp: createLineChartDataSet_fields)
  qed
  have "map label ?ds
          = concat (map (\<lambda>c. map (\<lambda>st. c @ ''('' @ st @ '')'') selectedStats)
                      (map snd (enumerate 0 selectedClasses)))"
  proof (rule map_label_concat)
    fix k c st
    assume kc: "(k, c) \<in> set (enumerate 0 selectedClasses)" and st: "st \<in> set selectedStats"
    from kc have "c \<in> set selectedClasses" by (rule enumerate_snd_in)
    then show "label (projr (?b k c st)) = c @ ''('' @ st @ '')''" using st by (rule lab)
  qed
  then have labs: "map label ?ds
          = concat (map (\<lambda>c. map (\<lambda>st. c @ ''('' @ st @ '')'') selectedStats) selectedClasses)"
    by simp
  have "length ?ds = length (map label ?ds)" by simp
  also have "\<dots> = length selectedClasses * length selectedStats"
    unfolding labs by (rule length_concat_product)
  finally have len: "length ?ds = length selectedClasses * length selectedStats" .
  show ?thesis
    using out labs len by (simp add: assembleLineGraphObject_Inr createLineGraphObject_fields)
qed

text \<open>
  C7, witness: HUcast and RAmar with ATP and HP on the sample data give the four labels
  HUcast(ATP), HUcast(HP), RAmar(ATP), RAmar(HP), in that order.
\<close>

theorem C7_datasets_cartesian_witness:
  "map label (lineData.datasets (lineGraphObject.data (projr
     (assembleLineGraphObject [''HUcast'', ''RAmar''] [''ATP'', ''HP''] ''T'' sampleClassData
        sampleStatColors 5 10))))
   = [''HUcast(ATP)'', ''HUcast(HP)'', ''RAmar(ATP)'', ''RAmar(HP)'']
   \<and> length (lineData.datasets (lineGraphObject.data (projr
     (assembleLineGraphObject [''HUcast'', ''RAmar''] [''ATP'', ''HP''] ''T'' sampleClassData
        sampleStatColors 5 10)))) = 4"
proof -
  have h1: "\<forall>c\<in>set [''HUcast'', ''RAmar''].
              \<exists>cd. getCharacterClassDataObject c sampleClassData = Inr cd"
    by (simp add: getCharacterClassDataObject_def sampleClassData_def)
  have h2: "\<forall>st\<in>set [''ATP'', ''HP'']. \<exists>base. sampleStatColors st = Some base"
    by (simp add: sampleStatColors_def)
  show ?thesis
    using C7_datasets_cartesian [OF h1 h2, of "''T''" 5 10] by auto
qed

subsection \<open>C9: empty selections\<close>

text \<open>
  C9: with no selected class or no selected stat the line assembler raises nothing and
  returns a chart object of type \<open>line\<close> whose labels are the level sequence, whose
  datasets are empty and whose title is the given one.
\<close>

theorem C9_empty_selection:
  assumes "selectedClasses = [] \<or> selectedStats = []"
  shows "\<exists>obj. assembleLineGraphObject selectedClasses selectedStats titleText allClassData
                 allStatColors startLevel endLevel = Inr obj
           \<and> obj = createLineGraphObject
                  (map (\<lambda>l. Number (Fin (real_of_int l)))
                     (createLevelArray (fst (clampLevelRange startLevel endLevel))
                        (snd (clampLevelRange startLevel endLevel))))
                  [] titleText
           \<and> lineGraphObject.type obj = ''line''
           \<and> lineData.labels (lineGraphObject.data obj)
               = map (\<lambda>l. Number (Fin (real_of_int l)))
                   (createLevelArray (fst (clampLevelRange startLevel endLevel))
                      (snd (clampLevelRange startLevel endLevel)))
           \<and> lineData.datasets (lineGraphObject.data obj) = []
           \<and> display (lineOptions.title (lineData.options (lineGraphObject.data obj)))
           \<and> text (lineOptions.title (lineData.options (lineGraphObject.data obj))) = titleText"
proof -
  have "assembleLineGraphObject_outer 0 (length selectedClasses) selectedClasses selectedStats
          allClassData allStatColors (fst (clampLevelRange startLevel endLevel))
          (snd (clampLevelRange startLevel endLevel)) [] = Inr []"
    using assms by (auto simp: assembleLineGraphObject_outer_Inr)
  then show ?thesis
    by (simp add: assembleLineGraphObject_Inr createLineGraphObject_def)
qed

text \<open>C9, witness: HUcast selected, no stat, levels 5 to 20.\<close>

theorem C9_empty_selection_witness:
  "assembleLineGraphObject [''HUcast''] [] ''Character stat growth'' sampleClassData
     sampleStatColors 5 20
   = Inr \<lparr>lineGraphObject.type = ''line'',
          data = \<lparr>lineData.labels =
                    [Number (Fin 5), Number (Fin 10), Number (Fin 15), Number (Fin 20)],
                  datasets = [],
                  options = \<lparr>lineOptions.title =
                               \<lparr>display = True, text = ''Character stat growth''\<rparr>\<rparr>\<rparr>\<rparr>"
  using C9_empty_selection [of "[''HUcast'']" "[]" "''Character stat growth''" sampleClassData
      sampleStatColors 5 20]
  by (auto simp: clampLevelRange_def createLevelArray_def createLevelArray_loop.simps
      createLineGraphObject_def)

subsection \<open>C2: table entries and labels\<close>

text \<open>
  C2 says that the line assembler raises \<open>RangeMismatchError\<close> when a label has no entry in
  a selected class's range-filtered table. \<open>createSingleStatArray\<close> walks the filtered
  table alone and never looks at the labels. The sample data has entries at levels 5 and
  10 only; for the range 5 to 15 the assembler returns three labels and a dataset of two
  values.
\<close>

theorem C2_range_mismatch_counterexample:
  "assembleLineGraphObject [''HUcast''] [''ATP''] ''T'' sampleClassData sampleStatColors 5 15
   = Inr (createLineGraphObject
            [Number (Fin 5), Number (Fin 10), Number (Fin 15)]
            [createLineChartDataSet [Number (Fin 10), Number (Fin 30)] ''HUcast(ATP)''
               \<lparr>red = 255, green = 0, blue = 0\<rparr>]
            ''T'')
   \<and> assembleLineGraphObject [''HUcast''] [''ATP''] ''T'' sampleClassData sampleStatColors 5 15
       \<noteq> Inl RangeMismatchError"
  by (simp add: line_eval)

text \<open>
  C2 as amended: the line assembler never raises \<open>RangeMismatchError\<close>: it returns a chart
  whenever every selected class is in the dataset and every selected stat has a colour,
  also when a label has no table entry. In a returned chart the labels are the level
  sequence, and the datasets are, in the order of the pairs (class, stat), the pair's
  label \<open><class>(<stat>)\<close> with that stat's values over the entries of that class's
  range-filtered table, one value per entry in table order. Nothing relates the number of
  values to the number of labels.
\<close>

theorem C2_data_follow_table:
  "assembleLineGraphObject selectedClasses selectedStats titleText allClassData allStatColors
     startLevel endLevel \<noteq> Inl RangeMismatchError
   \<and> ((\<forall>c\<in>set selectedClasses. \<exists>cd. getCharacterClassDataObject c allClassData = Inr cd)
      \<and> (\<forall>st\<in>set selectedStats. \<exists>base. allStatColors st = Some base) \<longrightarrow>
      (\<exists>obj. assembleLineGraphObject selectedClasses selectedStats titleText allClassData
                allStatColors startLevel endLevel = Inr obj))
   \<and> (\<forall>obj. assembleLineGraphObject selectedClasses selectedStats titleText allClassData
               allStatColors startLevel endLevel = Inr obj \<longrightarrow>
        lineData.labels (lineGraphObject.data obj)
          = map (\<lambda>l. Number (Fin (real_of_int l)))
              (createLevelArray (fst (clampLevelRange startLevel endLevel))
                 (snd (clampLevelRange startLevel endLevel)))
        \<and> map (\<lambda>d. (label d, dataSet.data d)) (lineData.datasets (lineGraphObject.data obj))
          = concat (map (\<lambda>c. map (\<lambda>st.
                (c @ ''('' @ st @ '')'',
                 map (\<lambda>x. toValue (stats x st))
                   (filter (\<lambda>x. fst (clampLevelRange startLevel endLevel) \<le> level x
                               \<and> level x \<le> snd (clampLevelRange startLevel endLevel))
                      (levelData (projr (getCharacterClassDataObject c allClassData))))))
              selectedStats) selectedClasses))"
proof (intro conjI allI impI)
  show "assembleLineGraphObject selectedClasses selectedStats titleText allClassData
          allStatColors startLevel endLevel \<noteq> Inl RangeMismatchError"
    using assembleLineGraphObject_error_kind by fastforce
next
  assume "(\<forall>c\<in>set selectedClasses. \<exists>cd. getCharacterClassDataObject c allClassData = Inr cd)
      \<and> (\<forall>st\<in>set selectedStats. \<exists>base. allStatColors st = Some base)"
  then show "\<exists>obj. assembleLineGraphObject selectedClasses selectedStats titleText allClassData
                allStatColors startLevel endLevel = Inr obj"
    using assembleLineGraphObject_returns by blast
next
  fix obj
  assume "assembleLineGraphObject selectedClasses selectedStats titleText allClassData
               allStatColors startLevel endLevel = Inr obj"
  then show "lineData.labels (lineGraphObject.data obj)
          = map (\<lambda>l. Number (Fin (real_of_int l)))
              (createLevelArray (fst (clampLevelRange startLevel endLevel))
                 (snd (clampLevelRange startLevel endLevel)))"
    by (auto simp: assembleLineGraphObject_Inr createLineGraphObject_fields)
next
  fix obj
  let ?s = "fst (clampLevelRange startLevel endLevel)"
  let ?e = "snd (clampLevelRange startLevel endLevel)"
  let ?b = "\<lambda>k c st. assembleLineGraphObject_body k (length selectedClasses) c st allClassData
                       allStatColors ?s ?e"
  let ?f = "\<lambda>c st. (c @ ''('' @ st @ '')'',
                 map (\<lambda>x. toValue (stats x st))
                   (filter (\<lambda>x. ?s \<le> level x \<and> level x \<le> ?e)
                      (levelData (projr (getCharacterClassDataObject c allClassData)))))"
  assume r: "assembleLineGraphObject selectedClasses selectedStats titleText allClassData
               allStatColors startLevel endLevel = Inr obj"
  from r obtain ds where out: "assembleLineGraphObject_outer 0 (length selectedClasses)
        selectedClasses selectedStats allClassData allStatColors ?s ?e [] = Inr ds"
    and obj: "lineData.datasets (lineGraphObject.data obj) = ds"
    by (auto simp: assembleLineGraphObject_Inr createLineGraphObject_fields)
  from out have ok: "\<forall>(k, c)\<in>set (enumerate 0 selectedClasses). \<forall>st\<in>set selectedStats.
                       \<exists>d. ?b k c st = Inr d"
    and ds: "ds = concat (map (\<lambda>(k, c). map (\<lambda>st. projr (?b k c st)) selectedStats)
                            (enumerate 0 selectedClasses))"
    by (simp_all add: assembleLineGraphObject_outer_Inr)
  have "map (\<lambda>d. (label d, dataSet.data d)) ds
          = concat (map (\<lambda>c. map (?f c) selectedStats) (map snd (enumerate 0 selectedClasses)))"
    unfolding ds
  proof (rule map_concat_enumerate)
    fix k c st
    assume kc: "(k, c) \<in> set (enumerate 0 selectedClasses)" and st: "st \<in> set selectedStats"
    from ok kc st obtain d where d: "?b k c st = Inr d" by blast
    from assembleLineGraphObject_body_Inr[OF d]
    obtain cd rgb where cd: "getCharacterClassDataObject c allClassData = Inr cd"
      and dd: "d = createLineChartDataSet
                     (createSingleStatArray st (getCharacterClassDataInRange ?s ?e cd))
                     (c @ ''('' @ st @ '')'') rgb"
      by blast
    show "(label (projr (?b k c st)), dataSet.data (projr (?b k c st))) = ?f c st"
      using d cd dd
      by (simp add: createLineChartDataSet_fields createSingleStatArray_in_range)
  qed
  then show "map (\<lambda>d. (label d, dataSet.data d)) (lineData.datasets (lineGraphObject.data obj))
          = concat (map (\<lambda>c. map (?f c) selectedStats) selectedClasses)"
    using obj by simp
qed

text \<open>
  C2, witness: RAmar's HP over the range 5 to 20 on the sample data: four labels, and one
  dataset with the two values of the two table entries.
\<close>

theorem C2_data_follow_table_witness:
  "assembleLineGraphObject [''RAmar''] [''HP''] ''T'' sampleClassData sampleStatColors 5 20
   = Inr (createLineGraphObject
            [Number (Fin 5), Number (Fin 10), Number (Fin 15), Number (Fin 20)]
            [createLineChartDataSet [Number (Fin 30), Number (Fin 45)] ''RAmar(HP)''
               \<lparr>red = 0, green = 128, blue = 0\<rparr>]
            ''T'')
   \<and> map (\<lambda>d. (label d, dataSet.data d)) (lineData.datasets (lineGraphObject.data (projr
        (assembleLineGraphObject [''RAmar''] [''HP''] ''T'' sampleClassData sampleStatColors
           5 20))))
     = [(''RAmar(HP)'', [Number (Fin 30), Number (Fin 45)])]
   \<and> length (lineData.labels (lineGraphObject.data (projr
        (assembleLineGraphObject [''RAmar''] [''HP''] ''T'' sampleClassData sampleStatColors
           5 20)))) = 4"
proof -
  have h: "assembleLineGraphObject [''RAmar''] [''HP''] ''T'' sampleClassData sampleStatColors
             5 20
   = Inr (createLineGraphObject
            [Number (Fin 5), Number (Fin 10), Number (Fin 15), Number (Fin 20)]
            [createLineChartDataSet [Number (Fin 30), Number (Fin 45)] ''RAmar(HP)''
               \<lparr>red = 0, green = 128, blue = 0\<rparr>]
            ''T'')"
    by (simp add: line_eval)
  let ?obj = "createLineGraphObject
            [Number (Fin 5), Number (Fin 10), Number (Fin 15), Number (Fin 20)]
            [createLineChartDataSet [Number (Fin 30), Number (Fin 45)] ''RAmar(HP)''
               \<lparr>red = 0, green = 128, blue = 0\<rparr>]
            ''T''"
  from h C2_data_follow_table [of "[''RAmar'']" "[''HP'']" "''T''" sampleClassData
        sampleStatColors 5 20]
  have "map (\<lambda>d. (label d, dataSet.data d)) (lineData.datasets (lineGraphObject.data ?obj))
          = concat (map (\<lambda>c. map (\<lambda>st.
                (c @ ''('' @ st @ '')'',
                 map (\<lambda>x. toValue (stats x st))
                   (filter (\<lambda>x. fst (clampLevelRange 5 20) \<le> level x
                               \<and> level x \<le> snd (clampLevelRange 5 20))
                      (levelData (projr (getCharacterClassDataObject c sampleClassData))))))
              [''HP'']) [''RAmar''])"
    by blast
  also have "\<dots> = [(''RAmar(HP)'', [Number (Fin 30), Number (Fin 45)])]"
    by (simp add: clampLevelRange_def getCharacterClassDataObject_def sampleClassData_def)
  finally have ds: "map (\<lambda>d. (label d, dataSet.data d))
                      (lineData.datasets (lineGraphObject.data ?obj))
                    = [(''RAmar(HP)'', [Number (Fin 30), Number (Fin 45)])]" .
  have len: "length (lineData.labels (lineGraphObject.data ?obj)) = 4"
    by (simp add: createLineGraphObject_fields)
  show ?thesis unfolding h sum.sel using ds len by simp
qed

section \<open>Claims about both assemblers\<close>

subsection \<open>C8: a class that is not in the dataset\<close>

text \<open>
  C8 says that each assembler raises \<open>NotFoundError\<close> for a selection with a class that has
  no entry in the dataset. The line assembler looks a class up inside its loop over the
  stats: HUnewearl is not in the sample data, and with no selected stat the assembler
  returns a chart.
\<close>

theorem C8_unknown_class_counterexample:
  "getCharacterClassDataObject ''HUnewearl'' sampleClassData = Inl NotFoundError
   \<and> assembleLineGraphObject [''HUnewearl''] [] ''T'' sampleClassData sampleStatColors 5 10
     = Inr (createLineGraphObject [Number (Fin 5), Number (Fin 10)] [] ''T'')"
  by (simp add: line_eval)

text \<open>
  C8 as amended: for a selection with a class that has no entry in the dataset, the radar
  assembler raises \<open>NotFoundError\<close>; the line assembler raises an error and returns no
  chart provided at least one stat is selected, and that error is \<open>NotFoundError\<close> when
  every selected stat has a colour (otherwise it may be \<open>UnknownStatError\<close>).
\<close>

theorem C8_unknown_class:
  assumes "c \<in> set sel" and "c \<notin> className ` set allClassData"
  shows "assembleRadarChartObject g sel allClassData characterColors lvl ns = Inl NotFoundError
    \<and> (selectedStats \<noteq> [] \<longrightarrow>
         (\<exists>err. assembleLineGraphObject sel selectedStats titleText allClassData allStatColors
                   startLevel endLevel = Inl err
                \<and> (err = NotFoundError \<or> err = UnknownStatError)))
    \<and> (selectedStats \<noteq> [] \<and> (\<forall>st\<in>set selectedStats. allStatColors st \<noteq> None) \<longrightarrow>
         assembleLineGraphObject sel selectedStats titleText allClassData allStatColors
           startLevel endLevel = Inl NotFoundError)"
proof -
  let ?line = "assembleLineGraphObject sel selectedStats titleText allClassData allStatColors
                 startLevel endLevel"
  let ?s = "fst (clampLevelRange startLevel endLevel)"
  let ?e = "snd (clampLevelRange startLevel endLevel)"
  have nf: "getCharacterClassDataObject c allClassData \<noteq> Inr cd" for cd
    using assms(2)
    by (auto simp: getCharacterClassDataObject_def split: option.splits
        dest: find_Some_iff[THEN iffD1])
  have noInr: "?line \<noteq> Inr obj" if "selectedStats \<noteq> []" for obj
  proof
    assume "?line = Inr obj"
    then obtain ds where "assembleLineGraphObject_outer 0 (length sel) sel selectedStats
        allClassData allStatColors ?s ?e [] = Inr ds"
      by (auto simp: assembleLineGraphObject_Inr)
    then have ok: "\<forall>(k, c)\<in>set (enumerate 0 sel). \<forall>st\<in>set selectedStats.
        \<exists>d. assembleLineGraphObject_body k (length sel) c st allClassData allStatColors ?s ?e
               = Inr d"
      by (simp add: assembleLineGraphObject_outer_Inr)
    from enumerate_ex[OF assms(1)] obtain k where k: "(k, c) \<in> set (enumerate 0 sel)" by blast
    from that obtain st where st: "st \<in> set selectedStats" by (cases selectedStats) auto
    from ok k st obtain d
      where "assembleLineGraphObject_body k (length sel) c st allClassData allStatColors ?s ?e
               = Inr d"
      by blast
    from assembleLineGraphObject_body_Inr[OF this] nf show False by blast
  qed
  have line1: "\<exists>err. ?line = Inl err \<and> (err = NotFoundError \<or> err = UnknownStatError)"
    if "selectedStats \<noteq> []"
  proof (cases ?line)
    case (Inl err)
    then show ?thesis using assembleLineGraphObject_error_kind[OF Inl] by auto
  next
    case (Inr obj)
    then show ?thesis using noInr[OF that] by simp
  qed
  have line2: "?line = Inl NotFoundError"
    if "selectedStats \<noteq> []" "\<forall>st\<in>set selectedStats. allStatColors st \<noteq> None"
  proof (cases ?line)
    case (Inl err)
    then show ?thesis using assembleLineGraphObject_error_kind[OF Inl] that(2) by auto
  next
    case (Inr obj)
    then show ?thesis using noInr[OF that(1)] by simp
  qed
  show ?thesis
    using assembleRadarChartObject_unknown_class[OF assms] line1 line2 by blast
qed

text \<open>
  C8, witness: FOmar is not in the sample data; selected after HUcast, it makes both
  assemblers raise \<open>NotFoundError\<close>.
\<close>

theorem C8_unknown_class_witness:
  "''FOmar'' \<in> set [''HUcast'', ''FOmar''] \<and> ''FOmar'' \<notin> className ` set sampleClassData
   \<and> assembleRadarChartObject getStatsAtLevel_lookup [''HUcast'', ''FOmar''] sampleClassData
       sampleCharacterColors 5 [''ATP'', ''HP''] = Inl NotFoundError
   \<and> assembleLineGraphObject [''HUcast'', ''FOmar''] [''ATP''] ''T'' sampleClassData
       sampleStatColors 5 10 = Inl NotFoundError"
proof -
  have h1: "''FOmar'' \<in> set [''HUcast'', ''FOmar'']" by simp
  have h2: "''FOmar'' \<notin> className ` set sampleClassData" by (simp add: sampleClassData_def)
  have h3: "[''ATP''] \<noteq> [] \<and> (\<forall>st\<in>set [''ATP'']. sampleStatColors st \<noteq> None)"
    by (simp add: sampleStatColors_def)
  show ?thesis
    using h1 h2 h3
      C8_unknown_class [OF h1 h2, of getStatsAtLevel_lookup sampleCharacterColors 5
        "[''ATP'', ''HP'']" "[''ATP'']" "''T''" sampleStatColors 5 10]
    by blast
qed

subsection \<open>C3: the shape of the chart objects\<close>

text \<open>
  C3 says, among other things, that the labels of a returned chart are strings. The line
  assembler passes the level array itself: for HUcast's ATP over 5 to 10 the labels are
  the numbers 5 and 10.
\<close>

theorem C3_chart_shape_counterexample:
  "assembleLineGraphObject [''HUcast''] [''ATP''] ''T'' sampleClassData sampleStatColors 5 10
   = Inr (createLineGraphObject
            [Number (Fin 5), Number (Fin 10)]
            [createLineChartDataSet [Number (Fin 10), Number (Fin 30)] ''HUcast(ATP)''
               \<lparr>red = 255, green = 0, blue = 0\<rparr>]
            ''T'')
   \<and> \<not> list_all isString
         (lineData.labels (lineGraphObject.data (createLineGraphObject
            [Number (Fin 5), Number (Fin 10)]
            [createLineChartDataSet [Number (Fin 10), Number (Fin 30)] ''HUcast(ATP)''
               \<lparr>red = 255, green = 0, blue = 0\<rparr>]
            ''T'')))"
  by (simp add: line_eval createLineGraphObject_fields)

text \<open>
  C3 as amended: a chart returned by the line assembler has type \<open>line\<close>, the level numbers
  as labels (numbers, not strings), a sequence of datasets, and the given title (stored
  under \<open>data.options.title.text\<close>); a chart returned by the radar assembler has type
  \<open>radar\<close>, the stat names as labels (strings), a sequence of datasets, and the title
  \<open>Class stats\<close> (stored under \<open>options.title.text\<close>).
\<close>

theorem C3_chart_shape:
  "(assembleLineGraphObject selectedClasses selectedStats titleText allClassData allStatColors
      startLevel endLevel = Inr lobj \<longrightarrow>
      lineGraphObject.type lobj = ''line''
      \<and> lineData.labels (lineGraphObject.data lobj)
          = map (\<lambda>l. Number (Fin (real_of_int l)))
              (createLevelArray (fst (clampLevelRange startLevel endLevel))
                 (snd (clampLevelRange startLevel endLevel)))
      \<and> list_all (\<lambda>v. \<not> isString v) (lineData.labels (lineGraphObject.data lobj))
      \<and> text (lineOptions.title (lineData.options (lineGraphObject.data lobj))) = titleText)
   \<and> (assembleRadarChartObject g sel allClassData characterColors lvl ns = Inr robj \<longrightarrow>
      radarChartObject.type robj = ''radar''
      \<and> radarData.labels (radarChartObject.data robj) = map String ns
      \<and> list_all isString (radarData.labels (radarChartObject.data robj))
      \<and> text (radarOptions.title (radarChartObject.options robj)) = ''Class stats'')"
  by (auto simp: assembleLineGraphObject_Inr assembleRadarChartObject_Inr
      createLineGraphObject_fields createRadarChartObject_fields list_all_iff)

text \<open>
  C3, witness: the line chart of RAmar's ATP over 5 to 10 and the radar chart of HUcast
  at level 10, on the sample data.
\<close>

theorem C3_chart_shape_witness:
  "assembleLineGraphObject [''RAmar''] [''ATP''] ''Growth'' sampleClassData sampleStatColors
     5 10
   = Inr (createLineGraphObject
            [Number (Fin 5), Number (Fin 10)]
            [createLineChartDataSet [Number (Fin 20), Number (Fin 40)] ''RAmar(ATP)''
               \<lparr>red = 255, green = 0, blue = 0\<rparr>]
            ''Growth'')
   \<and> assembleRadarChartObject getStatsAtLevel_lookup [''HUcast''] sampleClassData
       sampleCharacterColors 10 [''ATP'']
   = Inr (createRadarChartObject [String ''ATP'']
            [createRadarChartDataSet ''HUcast'' [Number (Fin 75)]
               \<lparr>red = 200, green = 30, blue = 30\<rparr>]
            ''Class stats'')
   \<and> lineGraphObject.type (createLineGraphObject
            [Number (Fin 5), Number (Fin 10)]
            [createLineChartDataSet [Number (Fin 20), Number (Fin 40)] ''RAmar(ATP)''
               \<lparr>red = 255, green = 0, blue = 0\<rparr>]
            ''Growth'') = ''line''
   \<and> radarChartObject.type (createRadarChartObject [String ''ATP'']
            [createRadarChartDataSet ''HUcast'' [Number (Fin 75)]
               \<lparr>red = 200, green = 30, blue = 30\<rparr>]
            ''Class stats'') = ''radar''"
proof -
  have h1: "assembleLineGraphObject [''RAmar''] [''ATP''] ''Growth'' sampleClassData
              sampleStatColors 5 10
   = Inr (createLineGraphObject
            [Number (Fin 5), Number (Fin 10)]
            [createLineChartDataSet [Number (Fin 20), Number (Fin 40)] ''RAmar(ATP)''
               \<lparr>red = 255, green = 0, blue = 0\<rparr>]
            ''Growth'')"
    by (simp add: line_eval)
  have h2: "assembleRadarChartObject getStatsAtLevel_lookup [''HUcast''] sampleClassData
       sampleCharacterColors 10 [''ATP'']
   = Inr (createRadarChartObject [String ''ATP'']
            [createRadarChartDataSet ''HUcast'' [Number (Fin 75)]
               \<lparr>red = 200, green = 30, blue = 30\<rparr>]
            ''Class stats'')"
    by (simp add: radar_eval)
  show ?thesis
    using h1 h2
      C3_chart_shape [of "[''RAmar'']" "[''ATP'']" "''Growth''" sampleClassData
        sampleStatColors 5 10 _ getStatsAtLevel_lookup "[''HUcast'']" sampleCharacterColors 10
        "[''ATP'']"]
    by simp
qed

end
